theory Spec2Isabelle
  imports Complex_Main "HOL-Library.Log_Nat"
begin

section \<open>Data model\<close>

text \<open>
  A shallow embedding of the booking, pet and login handlers of the pet-care platform
  (Express controllers over Mongoose models).

  \<^item> An ObjectId is a natural number; only well-formed ids are modelled.
  \<^item> A JavaScript \<^verbatim>\<open>Date\<close> is its number of milliseconds since the epoch, an \<open>int\<close>.
  \<^item> A JavaScript \<^verbatim>\<open>Number\<close> holding an amount of money is the rational it denotes.
    The arithmetic that computes the amounts of a new booking rounds every operation to
    IEEE 754 double precision (\<open>fl\<close> below).
  \<^item> A JavaScript string that is parsed character by character is the list of its UTF-16
    code units.
  \<^item> Every \<^verbatim>\<open>new Date()\<close> of a handler is a reading of a clock \<open>clk\<close>: \<open>clk 0\<close> is the
    first reading made while the request is served, \<open>clk 1\<close> the second, and so on.
  \<^item> A collection is the list of its documents; \<^verbatim>\<open>findOne\<close> returns the first document
    that matches, \<^verbatim>\<open>save\<close> replaces the documents that carry the saved \<^verbatim>\<open>_id\<close>.
  \<^item> A handler returns its response together with the database it leaves behind.
\<close>

type_synonym oid = nat
type_synonym time = int
type_synonym clock = "nat \<Rightarrow> time"
type_synonym codeUnits = "nat list"

subsection \<open>Double precision\<close>

text \<open>
  \<open>fl x\<close> is the double nearest to \<open>x\<close>, ties to the even significand: the result of any
  single JavaScript \<^verbatim>\<open>+\<close>, \<^verbatim>\<open>*\<close> or \<^verbatim>\<open>/\<close> whose exact value is \<open>x\<close>, and the value of a
  decimal literal that denotes \<open>x\<close>. \<open>ilog2 a\<close> is the binary exponent of a positive \<open>a\<close>
  (\<open>2 ^ e \<le> a < 2 ^ (e + 1)\<close>); the spacing of the doubles around \<open>a\<close> is
  \<open>2 ^ (e - 52)\<close>, and \<open>2 ^ (- 1074)\<close> among the subnormals. Zero has one sign. The
  exponent is not bounded above: \<^verbatim>\<open>Infinity\<close>, which JavaScript returns from
  \<open>2 ^ 1024 - 2 ^ 970\<close> on, is outside the model. No amount comes near it: a price passed
  \<^verbatim>\<open>Joi.number().min(0)\<close> of the service schema, which refuses what exceeds \<open>2 ^ 53 - 1\<close>,
  and two \<^verbatim>\<open>Date\<close>s are at most \<open>1.728e16\<close> milliseconds apart.
\<close>

definition roundHalfEven :: "rat \<Rightarrow> int" where
  "roundHalfEven r =
     (let f = \<lfloor>r\<rfloor>; d = r - of_int f
      in if d < 1/2 then f else if 1/2 < d then f + 1 else if even f then f else f + 1)"

definition ilog2 :: "rat \<Rightarrow> int" where
  "ilog2 a =
     (let (p, q) = quotient_of a; d = bitlen p - bitlen q
      in if q * 2 ^ nat d \<le> p * 2 ^ nat (- d) then d else d - 1)"

definition fl :: "rat \<Rightarrow> rat" where
  "fl x =
     (if x = 0 then 0
      else let a = \<bar>x\<bar>; k = max (ilog2 a - 52) (- 1074);
               m = roundHalfEven (a / 2 powi k)
           in sgn x * of_int m * 2 powi k)"

text \<open>The literal \<^verbatim>\<open>0.05\<close>.\<close>

definition fivePercent :: rat where
  "fivePercent = fl (5 / 100)"

datatype role = Owner | Sitter

datatype bstatus = Pending | Confirmed | InProgress | Completed | Cancelled | Declined

datatype priceType = Hourly | Daily | Weekly | PerService

record user =
  u_id :: oid
  u_email :: string
  u_password :: string
  u_role :: role
  u_isActive :: bool
  u_lastLogin :: "time option"

record pet =
  p_id :: oid
  p_owner :: oid
  p_species :: string
  p_photos :: "string list"
  p_isActive :: bool

record service =
  s_id :: oid
  s_sitter :: oid
  s_price :: rat
  s_priceType :: priceType
  s_petTypes :: "string list"
  s_instantBooking :: bool
  s_totalBookings :: int
  s_isActive :: bool

record contact =
  c_name :: "string option"
  c_phone :: "string option"
  c_relationship :: "string option"

record checkData =
  ck_time :: time
  ck_notes :: "string option"
  ck_photos :: "string list"

record cancellationData =
  cancelledBy :: oid
  cancelledAt :: time
  reason :: "string option"
  refundAmount :: rat

record booking =
  b_id :: oid
  owner :: oid
  sitter :: oid
  service :: oid
  pet :: oid
  startDate :: time
  endDate :: time
  startTime :: "string option"
  endTime :: "string option"
  status :: bstatus
  totalPrice :: rat
  serviceFee :: rat
  b_notes :: "string option"
  ownerNotes :: "string option"
  sitterNotes :: "string option"
  emergencyContact :: "contact option"
  checkIn :: "checkData option"
  checkOut :: "checkData option"
  cancellation :: "cancellationData option"

record db =
  users :: "user list"
  pets :: "pet list"
  services :: "service list"
  bookings :: "booking list"

section \<open>Errors and responses\<close>

text \<open>
  One constructor for each place where a handler answers with a failure or throws.
  \<open>statusCode\<close> is the HTTP status the client receives: the literal of the handler's
  \<^verbatim>\<open>res.status(...)\<close>, or what \<^verbatim>\<open>errorMiddleware\<close> computes for a thrown error
  (400 for a Mongoose \<^verbatim>\<open>ValidationError\<close>, 500 for a plain \<^verbatim>\<open>Error\<close>).
\<close>

datatype error =
    RoleForbidden role
  | ValidationFailed
  | ServiceNotFound
  | PetNotYours
  | UnsupportedPetType string
  | SlotUnavailable
  | SchemaValidationError
  | ThrownError string
  | OwnersOnlyCancel
  | InvalidSitterStatus
  | NoBookingFound
  | InvalidTransition bstatus string
  | CannotBeCancelled
  | AlreadyCheckedIn
  | MustCheckInFirst
  | AlreadyCheckedOut
  | NoPetFound
  | InvalidPhotoIndex

fun statusCode :: "error \<Rightarrow> nat" where
  "statusCode (RoleForbidden r) = 403"
| "statusCode ValidationFailed = 400"
| "statusCode ServiceNotFound = 404"
| "statusCode PetNotYours = 404"
| "statusCode (UnsupportedPetType s) = 400"
| "statusCode SlotUnavailable = 400"
| "statusCode SchemaValidationError = 400"
| "statusCode (ThrownError m) = 500"
| "statusCode OwnersOnlyCancel = 403"
| "statusCode InvalidSitterStatus = 403"
| "statusCode NoBookingFound = 404"
| "statusCode (InvalidTransition cur req) = 400"
| "statusCode CannotBeCancelled = 400"
| "statusCode AlreadyCheckedIn = 400"
| "statusCode MustCheckInFirst = 400"
| "statusCode AlreadyCheckedOut = 400"
| "statusCode NoPetFound = 404"
| "statusCode InvalidPhotoIndex = 400"

text \<open>The \<^verbatim>\<open>status\<close> field of the JSON envelope: \<^verbatim>\<open>fail\<close> for 4xx, \<^verbatim>\<open>error\<close> otherwise.\<close>

definition envelope :: "error \<Rightarrow> string" where
  "envelope e = (if 400 \<le> statusCode e \<and> statusCode e < 500 then ''fail'' else ''error'')"

section \<open>Access control\<close>

text \<open>\<^verbatim>\<open>restrictTo(...roles)\<close>: 403 unless the caller's role is among \<open>roles\<close>.\<close>

definition restrictTo :: "role list \<Rightarrow> user \<Rightarrow> error option" where
  "restrictTo roles caller =
     (if u_role caller \<in> set roles then None else Some (RoleForbidden (u_role caller)))"

section \<open>Booking model\<close>

fun statusName :: "bstatus \<Rightarrow> string" where
  "statusName Pending = ''pending''"
| "statusName Confirmed = ''confirmed''"
| "statusName InProgress = ''in_progress''"
| "statusName Completed = ''completed''"
| "statusName Cancelled = ''cancelled''"
| "statusName Declined = ''declined''"

text \<open>JavaScript truthiness of an optional string: present and not empty.\<close>

fun truthy :: "string option \<Rightarrow> bool" where
  "truthy None = False"
| "truthy (Some s) = (s \<noteq> [])"

definition isDigit :: "char \<Rightarrow> bool" where
  "isDigit c = (c \<in> set ''0123456789'')"

text \<open>The schema's pattern for \<^verbatim>\<open>startTime\<close> and \<^verbatim>\<open>endTime\<close>:
  \<^verbatim>\<open>/^([0-1]?[0-9]|2[0-3]):[0-5][0-9]$/\<close>.\<close>

fun matchesHHMM :: "string \<Rightarrow> bool" where
  "matchesHHMM [h, c, m1, m2] =
     (isDigit h \<and> c = CHR '':'' \<and> m1 \<in> set ''012345'' \<and> isDigit m2)"
| "matchesHHMM [a, h, c, m1, m2] =
     (((a \<in> set ''01'' \<and> isDigit h) \<or> (a = CHR ''2'' \<and> h \<in> set ''0123''))
       \<and> c = CHR '':'' \<and> m1 \<in> set ''012345'' \<and> isDigit m2)"
| "matchesHHMM s = False"

text \<open>Mongoose's \<^verbatim>\<open>match\<close> validator skips absent and empty values; \<^verbatim>\<open>maxlength\<close>
  skips absent ones.\<close>

fun matchOk :: "string option \<Rightarrow> bool" where
  "matchOk None = True"
| "matchOk (Some s) = (s = [] \<or> matchesHHMM s)"

fun maxlengthOk :: "nat \<Rightarrow> string option \<Rightarrow> bool" where
  "maxlengthOk n None = True"
| "maxlengthOk n (Some s) = (length s \<le> n)"

text \<open>The validators of \<^verbatim>\<open>bookingSchema\<close> on the fields of the model that carry one.\<close>

definition schemaValid :: "booking \<Rightarrow> bool" where
  "schemaValid b =
     (matchOk (startTime b) \<and> matchOk (endTime b) \<and> 0 \<le> totalPrice b \<and> 0 \<le> serviceFee b
      \<and> maxlengthOk 500 (b_notes b) \<and> maxlengthOk 500 (ownerNotes b)
      \<and> maxlengthOk 500 (sitterNotes b))"

text \<open>\<^verbatim>\<open>bookingSchema.pre('save')\<close>: the error it passes to \<^verbatim>\<open>next\<close>, if any.
  Both are plain \<^verbatim>\<open>Error\<close>s. For a document that is not new the clock is not read
  (\<^verbatim>\<open>&&\<close> stops at \<^verbatim>\<open>this.isNew\<close>) and \<open>now\<close> is ignored.\<close>

definition preSave :: "bool \<Rightarrow> time \<Rightarrow> booking \<Rightarrow> error option" where
  "preSave isNew now b =
     (if endDate b \<le> startDate b then Some (ThrownError ''End date must be after start date'')
      else if isNew \<and> startDate b < now then Some (ThrownError ''Cannot create bookings in the past'')
      else None)"

text \<open>\<^verbatim>\<open>save\<close>: schema validation runs first, then the pre-save hook.\<close>

definition saveCheck :: "bool \<Rightarrow> time \<Rightarrow> booking \<Rightarrow> error option" where
  "saveCheck isNew now b =
     (if \<not> schemaValid b then Some SchemaValidationError else preSave isNew now b)"

definition hoursUntilStart :: "booking \<Rightarrow> time \<Rightarrow> rat" where
  "hoursUntilStart b now = of_int (startDate b - now) / (1000 * 60 * 60)"

definition canBeCancelled :: "booking \<Rightarrow> time \<Rightarrow> bool" where
  "canBeCancelled b now =
     (if status b = Completed \<or> status b = Cancelled then False
      else hoursUntilStart b now > 24)"

text \<open>\<^verbatim>\<open>calculateRefund\<close>. Halving a double is exact (but for an odd subnormal), so
  \<^verbatim>\<open>this.totalPrice * 0.5\<close> is written without rounding.\<close>

definition calculateRefund :: "booking \<Rightarrow> time \<Rightarrow> rat" where
  "calculateRefund b now =
     (if hoursUntilStart b now > 48 then totalPrice b
      else if hoursUntilStart b now > 24 then totalPrice b * (1/2)
      else 0)"

definition blocking :: "bstatus list" where
  "blocking = [Pending, Confirmed, InProgress]"

text \<open>\<^verbatim>\<open>Booking.findConflicts(sitterId, startDate, endDate)\<close>, without the optional
  \<^verbatim>\<open>excludeBookingId\<close>, which no caller passes.\<close>

definition findConflicts :: "booking list \<Rightarrow> oid \<Rightarrow> time \<Rightarrow> time \<Rightarrow> booking list" where
  "findConflicts bs sitterId start end' =
     filter (\<lambda>b. sitter b = sitterId \<and> status b \<in> set blocking
                 \<and> startDate b \<le> end' \<and> endDate b \<ge> start) bs"

section \<open>Booking controller\<close>

text \<open>The body of \<^verbatim>\<open>POST /api/bookings\<close>; a field that is missing is \<open>None\<close>.\<close>

record bookingBody =
  rq_service :: "oid option"
  rq_pet :: "oid option"
  rq_startDate :: "time option"
  rq_endDate :: "time option"
  rq_startTime :: "string option"
  rq_endTime :: "string option"
  rq_notes :: "string option"
  rq_emergencyContact :: "contact option"

text \<open>\<^verbatim>\<open>Joi.string()\<close> rejects the empty string; \<^verbatim>\<open>.required()\<close> rejects absence.\<close>

fun joiRequired :: "string option \<Rightarrow> bool" where
  "joiRequired None = False"
| "joiRequired (Some s) = (s \<noteq> [])"

fun joiOptional :: "nat option \<Rightarrow> string option \<Rightarrow> bool" where
  "joiOptional m None = True"
| "joiOptional None (Some s) = (s \<noteq> [])"
| "joiOptional (Some n) (Some s) = (s \<noteq> [] \<and> length s \<le> n)"

text \<open>\<^verbatim>\<open>schemas.booking\<close>: \<^verbatim>\<open>startDate\<close> is \<^verbatim>\<open>Joi.date().min('now')\<close> and \<^verbatim>\<open>endDate\<close> is
  \<^verbatim>\<open>Joi.date().min(Joi.ref('startDate'))\<close>; Joi's \<^verbatim>\<open>min\<close> accepts the limit itself.\<close>

definition bookingSchema :: "bookingBody \<Rightarrow> time \<Rightarrow> bool" where
  "bookingSchema body now =
     (rq_service body \<noteq> None \<and> rq_pet body \<noteq> None
      \<and> (case rq_startDate body of None \<Rightarrow> False
          | Some s \<Rightarrow> now \<le> s \<and> (case rq_endDate body of None \<Rightarrow> False | Some e \<Rightarrow> s \<le> e))
      \<and> joiOptional (Some 500) (rq_notes body)
      \<and> (case rq_emergencyContact body of None \<Rightarrow> True
          | Some c \<Rightarrow> joiRequired (c_name c) \<and> joiRequired (c_phone c)
                      \<and> joiOptional None (c_relationship c)))"

text \<open>The middleware \<^verbatim>\<open>validate(schemas.booking)\<close>: 400 when the schema reports an error.\<close>

definition validate :: "bookingBody \<Rightarrow> time \<Rightarrow> error option" where
  "validate body now = (if bookingSchema body now then None else Some ValidationFailed)"

text \<open>
  The price before the fee, by \<^verbatim>\<open>service.priceType\<close>. Each of \<^verbatim>\<open>end - start\<close>, the
  division and the multiplication is one rounded operation; \<^verbatim>\<open>Math.abs\<close> and
  \<^verbatim>\<open>Math.ceil\<close> are exact.
\<close>

definition priceFor :: "service \<Rightarrow> time \<Rightarrow> time \<Rightarrow> rat" where
  "priceFor svc start end' =
     (case s_priceType svc of
        Hourly \<Rightarrow> fl (s_price svc * of_int \<lceil>fl (\<bar>fl (of_int (end' - start))\<bar> / 3600000)\<rceil>)
      | Daily \<Rightarrow>
          fl (s_price svc * of_int \<lceil>fl (\<bar>fl (of_int (end' - start))\<bar> / (1000 * 60 * 60 * 24))\<rceil>)
      | Weekly \<Rightarrow>
          fl (s_price svc * of_int \<lceil>fl (\<bar>fl (of_int (end' - start))\<bar> / (1000 * 60 * 60 * 24 * 7))\<rceil>)
      | PerService \<Rightarrow> s_price svc)"

text \<open>The \<^verbatim>\<open>_id\<close> that \<^verbatim>\<open>Booking.create\<close> gives the new document: one no booking has.\<close>

definition freshId :: "booking list \<Rightarrow> oid" where
  "freshId bs = Suc (foldr max (map b_id bs) 0)"

text \<open>
  \<^verbatim>\<open>createBooking\<close>, called behind \<^verbatim>\<open>validate\<close> with the four required fields of the body.
  \<^verbatim>\<open>populate('sitter')\<close> leaves \<^verbatim>\<open>null\<close> when no user has the service's sitter id, and
  \<^verbatim>\<open>service.sitter._id\<close> then throws a \<^verbatim>\<open>TypeError\<close> (its message is written here
  without quotation marks). \<open>now\<close> is the clock reading of the pre-save hook.
\<close>

definition createBooking ::
  "db \<Rightarrow> user \<Rightarrow> oid \<Rightarrow> oid \<Rightarrow> time \<Rightarrow> time \<Rightarrow> bookingBody \<Rightarrow> time \<Rightarrow> (error + booking) \<times> db" where
  "createBooking d caller serviceId petId start end' body now =
     (case find (\<lambda>s. s_id s = serviceId \<and> s_isActive s) (services d) of
        None \<Rightarrow> (Inl ServiceNotFound, d)
      | Some svc \<Rightarrow>
     (case find (\<lambda>p. p_id p = petId \<and> p_owner p = u_id caller \<and> p_isActive p) (pets d) of
        None \<Rightarrow> (Inl PetNotYours, d)
      | Some pt \<Rightarrow>
     if p_species pt \<notin> set (s_petTypes svc) then (Inl (UnsupportedPetType (p_species pt)), d)
     else
     (case find (\<lambda>u. u_id u = s_sitter svc) (users d) of
        None \<Rightarrow> (Inl (ThrownError ''Cannot read properties of null (reading _id)''), d)
      | Some sit \<Rightarrow>
     if findConflicts (bookings d) (u_id sit) start end' \<noteq> [] then (Inl SlotUnavailable, d)
     else
       let price = priceFor svc start end';
           fee = fl (price * fivePercent);
           b = \<lparr> b_id = freshId (bookings d), owner = u_id caller, sitter = u_id sit,
                 service = serviceId, pet = petId, startDate = start, endDate = end',
                 startTime = rq_startTime body, endTime = rq_endTime body,
                 status = (if s_instantBooking svc then Confirmed else Pending),
                 totalPrice = fl (price + fee), serviceFee = fee, b_notes = rq_notes body,
                 ownerNotes = None, sitterNotes = None,
                 emergencyContact = rq_emergencyContact body,
                 checkIn = None, checkOut = None, cancellation = None \<rparr>
       in (case saveCheck True now b of
             Some e \<Rightarrow> (Inl e, d)
           | None \<Rightarrow> (Inr b, d\<lparr>bookings := bookings d @ [b]\<rparr>)))))"

text \<open>The route \<^verbatim>\<open>POST /api/bookings\<close>:
  \<^verbatim>\<open>restrictTo('owner'), validate(schemas.booking), createBooking\<close>. Joi reads the clock
  first, the pre-save hook second.\<close>

definition postBooking :: "db \<Rightarrow> user \<Rightarrow> bookingBody \<Rightarrow> clock \<Rightarrow> (error + booking) \<times> db" where
  "postBooking d caller body clk =
     (case restrictTo [Owner] caller of
        Some e \<Rightarrow> (Inl e, d)
      | None \<Rightarrow>
     (case validate body (clk 0) of
        Some e \<Rightarrow> (Inl e, d)
      | None \<Rightarrow>
     (case (rq_service body, rq_pet body, rq_startDate body, rq_endDate body) of
        (Some serviceId, Some petId, Some start, Some end') \<Rightarrow>
          createBooking d caller serviceId petId start end' body (clk 1)
      | _ \<Rightarrow> (Inl ValidationFailed, d))))"

text \<open>
  What the conflict check of \<^verbatim>\<open>createBooking\<close> is called with, when the request gets
  that far: the caller is an owner, the body passes \<^verbatim>\<open>validate\<close>, the service is found
  and active, the pet is found, active and the caller's, the service takes the pet's
  species and the service's sitter is a user. The value is the sitter's id and the
  requested start and end.
\<close>

definition conflictCheckInput ::
  "db \<Rightarrow> user \<Rightarrow> bookingBody \<Rightarrow> clock \<Rightarrow> (oid \<times> time \<times> time) option" where
  "conflictCheckInput d caller body clk =
     (if u_role caller = Owner \<and> bookingSchema body (clk 0) then
        (case (rq_service body, rq_pet body, rq_startDate body, rq_endDate body) of
           (Some serviceId, Some petId, Some start, Some end') \<Rightarrow>
             (case find (\<lambda>s. s_id s = serviceId \<and> s_isActive s) (services d) of
                None \<Rightarrow> None
              | Some svc \<Rightarrow>
             (case find (\<lambda>p. p_id p = petId \<and> p_owner p = u_id caller \<and> p_isActive p) (pets d) of
                None \<Rightarrow> None
              | Some pt \<Rightarrow>
                 if p_species pt \<in> set (s_petTypes svc)
                 then map_option (\<lambda>u. (u_id u, start, end'))
                        (find (\<lambda>u. u_id u = s_sitter svc) (users d))
                 else None))
         | _ \<Rightarrow> None)
      else None)"

text \<open>The table \<^verbatim>\<open>validTransitions\<close> of \<^verbatim>\<open>updateBookingStatus\<close>.\<close>

fun validTransitions :: "bstatus \<Rightarrow> bstatus list" where
  "validTransitions Pending = [Confirmed, Declined, Cancelled]"
| "validTransitions Confirmed = [InProgress, Cancelled]"
| "validTransitions InProgress = [Completed, Cancelled]"
| "validTransitions Completed = []"
| "validTransitions Cancelled = []"
| "validTransitions Declined = []"

definition allowedStatuses :: "bstatus list" where
  "allowedStatuses = [Confirmed, Declined, InProgress, Completed]"

text \<open>The role checks that open \<^verbatim>\<open>updateBookingStatus\<close>; \<open>req\<close> is the \<^verbatim>\<open>status\<close> string
  of the request body.\<close>

definition roleGate :: "user \<Rightarrow> string \<Rightarrow> error option" where
  "roleGate caller req =
     (case u_role caller of
        Owner \<Rightarrow> if req \<noteq> ''cancelled'' then Some OwnersOnlyCancel else None
      | Sitter \<Rightarrow> if req \<notin> set (map statusName allowedStatuses) then Some InvalidSitterStatus
                  else None)"

text \<open>The query of \<^verbatim>\<open>updateBookingStatus\<close>: the id, scoped to the caller by role.\<close>

definition findBookingFor :: "db \<Rightarrow> user \<Rightarrow> oid \<Rightarrow> booking option" where
  "findBookingFor d caller bid =
     find (\<lambda>b. b_id b = bid \<and>
               (case u_role caller of Owner \<Rightarrow> owner b = u_id caller
                                    | Sitter \<Rightarrow> sitter b = u_id caller))
          (bookings d)"

definition saveBooking :: "db \<Rightarrow> booking \<Rightarrow> db" where
  "saveBooking d b = d\<lparr>bookings := map (\<lambda>x. if b_id x = b_id b then b else x) (bookings d)\<rparr>"

text \<open>\<^verbatim>\<open>Service.findByIdAndUpdate(id, { $inc: { totalBookings: 1 } })\<close>.\<close>

definition incTotalBookings :: "db \<Rightarrow> oid \<Rightarrow> db" where
  "incTotalBookings d sid =
     d\<lparr>services := map (\<lambda>s. if s_id s = sid then s\<lparr>s_totalBookings := s_totalBookings s + 1\<rparr> else s)
                        (services d)\<rparr>"

text \<open>
  \<^verbatim>\<open>PATCH /api/bookings/:id/status\<close>. When the request cancels, \<^verbatim>\<open>canBeCancelled\<close> reads
  the clock first, \<^verbatim>\<open>cancelledAt\<close> second and \<^verbatim>\<open>calculateRefund\<close> third.
\<close>

definition updateBookingStatus ::
  "db \<Rightarrow> user \<Rightarrow> oid \<Rightarrow> string \<Rightarrow> string option \<Rightarrow> clock \<Rightarrow> (error + booking) \<times> db" where
  "updateBookingStatus d caller bid req rnotes clk =
     (case roleGate caller req of
        Some e \<Rightarrow> (Inl e, d)
      | None \<Rightarrow>
     (case findBookingFor d caller bid of
        None \<Rightarrow> (Inl NoBookingFound, d)
      | Some b \<Rightarrow>
     (case find (\<lambda>t. statusName t = req) (validTransitions (status b)) of
        None \<Rightarrow> (Inl (InvalidTransition (status b) req), d)
      | Some t \<Rightarrow>
     if t = Cancelled \<and> \<not> canBeCancelled b (clk 0) then (Inl CannotBeCancelled, d)
     else
       let b1 = (if t = Cancelled
                 then b\<lparr>cancellation := Some \<lparr> cancelledBy = u_id caller, cancelledAt = clk 1,
                                                reason = rnotes,
                                                refundAmount = calculateRefund b (clk 2) \<rparr>\<rparr>
                 else b);
           b2 = b1\<lparr>status := t\<rparr>;
           b3 = (if truthy rnotes
                 then (case u_role caller of Owner \<Rightarrow> b2\<lparr>ownerNotes := rnotes\<rparr>
                                           | Sitter \<Rightarrow> b2\<lparr>sitterNotes := rnotes\<rparr>)
                 else b2)
       in (case saveCheck False 0 b3 of
             Some e \<Rightarrow> (Inl e, d)
           | None \<Rightarrow>
               (Inr b3, if t = Confirmed then incTotalBookings (saveBooking d b3) (service b3)
                        else saveBooking d b3)))))"

text \<open>
  \<^verbatim>\<open>checkInOut\<close>, for \<^verbatim>\<open>POST /api/bookings/:id/checkin\<close> (\<open>isCheckIn\<close>) and
  \<^verbatim>\<open>.../checkout\<close>. A booking is checked in when \<^verbatim>\<open>checkIn.time\<close> is set.
\<close>

definition checkInOut ::
  "db \<Rightarrow> user \<Rightarrow> oid \<Rightarrow> bool \<Rightarrow> string option \<Rightarrow> string list option \<Rightarrow> clock
     \<Rightarrow> (error + booking) \<times> db" where
  "checkInOut d caller bid isCheckIn cnotes cphotos clk =
     (case find (\<lambda>b. b_id b = bid \<and> sitter b = u_id caller) (bookings d) of
        None \<Rightarrow> (Inl NoBookingFound, d)
      | Some b \<Rightarrow>
       let cd = \<lparr> ck_time = clk 0, ck_notes = cnotes,
                  ck_photos = (case cphotos of None \<Rightarrow> [] | Some ps \<Rightarrow> ps) \<rparr>
       in if isCheckIn then
            (if checkIn b \<noteq> None then (Inl AlreadyCheckedIn, d)
             else let b' = b\<lparr>checkIn := Some cd, status := InProgress\<rparr>
                  in (case saveCheck False 0 b' of
                        Some e \<Rightarrow> (Inl e, d)
                      | None \<Rightarrow> (Inr b', saveBooking d b')))
          else
            (if checkIn b = None then (Inl MustCheckInFirst, d)
             else if checkOut b \<noteq> None then (Inl AlreadyCheckedOut, d)
             else let b' = b\<lparr>checkOut := Some cd, status := Completed\<rparr>
                  in (case saveCheck False 0 b' of
                        Some e \<Rightarrow> (Inl e, d)
                      | None \<Rightarrow> (Inr b', saveBooking d b'))))"

text \<open>The two routes, both behind \<^verbatim>\<open>restrictTo('sitter')\<close>.\<close>

definition postCheckInOut ::
  "db \<Rightarrow> user \<Rightarrow> oid \<Rightarrow> bool \<Rightarrow> string option \<Rightarrow> string list option \<Rightarrow> clock
     \<Rightarrow> (error + booking) \<times> db" where
  "postCheckInOut d caller bid isCheckIn cnotes cphotos clk =
     (case restrictTo [Sitter] caller of
        Some e \<Rightarrow> (Inl e, d)
      | None \<Rightarrow> checkInOut d caller bid isCheckIn cnotes cphotos clk)"

section \<open>Pet controller\<close>

text \<open>
  Every pet route runs behind \<^verbatim>\<open>restrictTo('owner')\<close>. Stored pets satisfy the schema
  (every write path validates), so a \<^verbatim>\<open>save\<close> that only clears \<^verbatim>\<open>isActive\<close> or
  shortens \<^verbatim>\<open>photos\<close> succeeds. The uploaded files themselves are outside the model.
\<close>

definition findPet :: "db \<Rightarrow> oid \<Rightarrow> user \<Rightarrow> pet option" where
  "findPet d pid caller =
     find (\<lambda>p. p_id p = pid \<and> p_owner p = u_id caller \<and> p_isActive p) (pets d)"

definition savePet :: "db \<Rightarrow> pet \<Rightarrow> db" where
  "savePet d p = d\<lparr>pets := map (\<lambda>x. if p_id x = p_id p then p else x) (pets d)\<rparr>"

definition getPet :: "db \<Rightarrow> user \<Rightarrow> oid \<Rightarrow> (error + pet) \<times> db" where
  "getPet d caller pid =
     (case findPet d pid caller of
        None \<Rightarrow> (Inl NoPetFound, d)
      | Some p \<Rightarrow> (Inr p, d))"

definition deletePet :: "db \<Rightarrow> user \<Rightarrow> oid \<Rightarrow> (error + unit) \<times> db" where
  "deletePet d caller pid =
     (case findPet d pid caller of
        None \<Rightarrow> (Inl NoPetFound, d)
      | Some p \<Rightarrow> (Inr (), savePet d (p\<lparr>p_isActive := False\<rparr>)))"

text \<open>
  JavaScript's \<^verbatim>\<open>parseInt(string)\<close> with no radix, on the code units of the string:
  leading white space is dropped (the \<^verbatim>\<open>WhiteSpace\<close> and \<^verbatim>\<open>LineTerminator\<close> code points
  of ECMAScript, all of them single code units), then an optional sign, then \<^verbatim>\<open>0x\<close> or
  \<^verbatim>\<open>0X\<close> selects radix 16; the longest prefix of digits of the radix is the value, and
  \<open>None\<close> stands for \<^verbatim>\<open>NaN\<close> when that prefix is empty. The value is exact; the
  \<^verbatim>\<open>Number\<close> that JavaScript returns is rounded beyond \<open>2 ^ 53\<close>, far above any array
  length, so the comparisons of the caller come out the same.
\<close>

definition isSpace :: "nat \<Rightarrow> bool" where
  "isSpace c =
     (c \<in> set [0x09, 0x0A, 0x0B, 0x0C, 0x0D, 0x20, 0xA0, 0x1680, 0x2028, 0x2029, 0x202F,
                0x205F, 0x3000, 0xFEFF]
      \<or> (0x2000 \<le> c \<and> c \<le> 0x200A))"

definition digitValue :: "nat \<Rightarrow> nat option" where
  "digitValue c =
     (if 48 \<le> c \<and> c \<le> 57 then Some (c - 48)
      else if 97 \<le> c \<and> c \<le> 122 then Some (c - 87)
      else if 65 \<le> c \<and> c \<le> 90 then Some (c - 55)
      else None)"

definition isRadixDigit :: "nat \<Rightarrow> nat \<Rightarrow> bool" where
  "isRadixDigit r c = (case digitValue c of None \<Rightarrow> False | Some v \<Rightarrow> v < r)"

definition digitsValue :: "nat \<Rightarrow> codeUnits \<Rightarrow> int" where
  "digitsValue r z =
     foldl (\<lambda>acc c. acc * int r + int (case digitValue c of None \<Rightarrow> 0 | Some v \<Rightarrow> v)) 0 z"

text \<open>After the sign: \<open>48\<close> is \<^verbatim>\<open>0\<close>, \<open>120\<close> is \<^verbatim>\<open>x\<close> and \<open>88\<close> is \<^verbatim>\<open>X\<close>.\<close>

definition parseUnsigned :: "codeUnits \<Rightarrow> int option" where
  "parseUnsigned s =
     (let (r, t) = (case s of
                      a # b # rest \<Rightarrow>
                        if a = 48 \<and> (b = 120 \<or> b = 88) then (16, rest)
                        else (10, s)
                    | _ \<Rightarrow> (10, s));
          z = takeWhile (isRadixDigit r) t
      in if z = [] then None else Some (digitsValue r z))"

text \<open>\<open>45\<close> is \<^verbatim>\<open>-\<close> and \<open>43\<close> is \<^verbatim>\<open>+\<close>.\<close>

definition parseInt :: "codeUnits \<Rightarrow> int option" where
  "parseInt str =
     (case dropWhile isSpace str of
        [] \<Rightarrow> None
      | c # rest \<Rightarrow>
          if c = 45 then map_option uminus (parseUnsigned rest)
          else if c = 43 then parseUnsigned rest
          else parseUnsigned (c # rest))"

text \<open>\<^verbatim>\<open>photos.splice(i, 1)\<close> for an index inside the array.\<close>

definition splice1 :: "nat \<Rightarrow> 'a list \<Rightarrow> 'a list" where
  "splice1 i xs = take i xs @ drop (Suc i) xs"

text \<open>
  \<^verbatim>\<open>deletePhoto\<close>; \<open>param\<close> is \<^verbatim>\<open>req.params.photoIndex\<close>, as code units. Both comparisons of the guard
  are false for \<^verbatim>\<open>NaN\<close>, so \<^verbatim>\<open>pet.photos[NaN]\<close> is \<^verbatim>\<open>undefined\<close> and
  \<^verbatim>\<open>path.basename(undefined)\<close> throws a \<^verbatim>\<open>TypeError\<close> (its message is abridged
  here), which the handler's \<^verbatim>\<open>catch\<close> passes to \<^verbatim>\<open>next\<close>.
\<close>

definition deletePhoto :: "db \<Rightarrow> user \<Rightarrow> oid \<Rightarrow> codeUnits \<Rightarrow> (error + pet) \<times> db" where
  "deletePhoto d caller pid param =
     (case findPet d pid caller of
        None \<Rightarrow> (Inl NoPetFound, d)
      | Some p \<Rightarrow>
     (case parseInt param of
        None \<Rightarrow> (Inl (ThrownError ''The path argument must be of type string''), d)
      | Some photoIndex \<Rightarrow>
          if photoIndex < 0 \<or> photoIndex \<ge> int (length (p_photos p))
          then (Inl InvalidPhotoIndex, d)
          else let p' = p\<lparr>p_photos := splice1 (nat photoIndex) (p_photos p)\<rparr>
               in (Inr p', savePet d p')))"

text \<open>The routes \<^verbatim>\<open>GET /api/pets/:id\<close>, \<^verbatim>\<open>DELETE /api/pets/:id\<close> and
  \<^verbatim>\<open>DELETE /api/pets/:id/photos/:photoIndex\<close>.\<close>

definition routeGetPet :: "db \<Rightarrow> user \<Rightarrow> oid \<Rightarrow> (error + pet) \<times> db" where
  "routeGetPet d caller pid =
     (case restrictTo [Owner] caller of
        Some e \<Rightarrow> (Inl e, d)
      | None \<Rightarrow> getPet d caller pid)"

definition routeDeletePet :: "db \<Rightarrow> user \<Rightarrow> oid \<Rightarrow> (error + unit) \<times> db" where
  "routeDeletePet d caller pid =
     (case restrictTo [Owner] caller of
        Some e \<Rightarrow> (Inl e, d)
      | None \<Rightarrow> deletePet d caller pid)"

definition routeDeletePhoto :: "db \<Rightarrow> user \<Rightarrow> oid \<Rightarrow> codeUnits \<Rightarrow> (error + pet) \<times> db" where
  "routeDeletePhoto d caller pid param =
     (case restrictTo [Owner] caller of
        Some e \<Rightarrow> (Inl e, d)
      | None \<Rightarrow> deletePhoto d caller pid param)"

section \<open>Login\<close>

text \<open>
  \<^verbatim>\<open>User.findByCredentials(email, password)\<close>: the value is the user, or the error it
  throws. \<open>cmp\<close> is \<^verbatim>\<open>bcrypt.compare\<close>, a parameter; \<open>email\<close> is the request's email as
  the query casts it.
\<close>

datatype credError = InvalidLoginCredentials | AccountDeactivated

definition findByCredentials ::
  "(string \<Rightarrow> string \<Rightarrow> bool) \<Rightarrow> user list \<Rightarrow> string \<Rightarrow> string \<Rightarrow> credError + user" where
  "findByCredentials cmp us email password =
     (case find (\<lambda>u. u_email u = email) us of
        None \<Rightarrow> Inl InvalidLoginCredentials
      | Some u \<Rightarrow>
          if \<not> cmp password (u_password u) then Inl InvalidLoginCredentials
          else if \<not> u_isActive u then Inl AccountDeactivated
          else Inr u)"

text \<open>The response of \<^verbatim>\<open>login\<close>: the HTTP status and the fields of the JSON body
  (the user, sent without its password, is named by its id).\<close>

record response =
  code :: nat
  r_status :: string
  r_message :: "string option"
  r_token :: "string option"
  r_user :: "oid option"

definition saveUser :: "db \<Rightarrow> user \<Rightarrow> db" where
  "saveUser d u = d\<lparr>users := map (\<lambda>x. if u_id x = u_id u then u else x) (users d)\<rparr>"

text \<open>\<^verbatim>\<open>login\<close>; \<open>sign\<close> is \<^verbatim>\<open>user.generateAuthToken\<close> (\<^verbatim>\<open>jwt.sign\<close> with the secret of the
  environment), a parameter. The \<^verbatim>\<open>catch\<close> answers every thrown error the same way.\<close>

definition login ::
  "(string \<Rightarrow> string \<Rightarrow> bool) \<Rightarrow> (user \<Rightarrow> string) \<Rightarrow> db \<Rightarrow> string \<Rightarrow> string \<Rightarrow> clock
     \<Rightarrow> response \<times> db" where
  "login cmp sign d email password clk =
     (case findByCredentials cmp (users d) email password of
        Inl err \<Rightarrow>
          (\<lparr> code = 401, r_status = ''fail'', r_message = Some ''Invalid email or password'',
              r_token = None, r_user = None \<rparr>, d)
      | Inr u \<Rightarrow>
          let u' = u\<lparr>u_lastLogin := Some (clk 0)\<rparr>
          in (\<lparr> code = 200, r_status = ''success'', r_message = None,
                 r_token = Some (sign u'), r_user = Some (u_id u') \<rparr>, saveUser d u'))"

section \<open>A small database\<close>

text \<open>
  An owner with a dog, a sitter with an hourly dog service at 10 per hour, a second owner,
  a deactivated owner, and one pending booking of 90 minutes that starts 1000000 seconds
  after the epoch. \<open>atEpoch\<close> is a clock
  that stands at 0, so the booking is about 277 hours away.
\<close>

definition anOwner :: user where
  "anOwner = \<lparr> u_id = 1, u_email = ''ann@example.com'', u_password = ''hash-a'',
               u_role = Owner, u_isActive = True, u_lastLogin = None \<rparr>"

definition aSitter :: user where
  "aSitter = \<lparr> u_id = 2, u_email = ''sam@example.com'', u_password = ''hash-s'',
               u_role = Sitter, u_isActive = True, u_lastLogin = None \<rparr>"

definition otherOwner :: user where
  "otherOwner = \<lparr> u_id = 3, u_email = ''oli@example.com'', u_password = ''hash-o'',
                  u_role = Owner, u_isActive = True, u_lastLogin = None \<rparr>"

definition formerOwner :: user where
  "formerOwner = \<lparr> u_id = 4, u_email = ''fay@example.com'', u_password = ''hash-f'',
                   u_role = Owner, u_isActive = False, u_lastLogin = None \<rparr>"

definition aPet :: pet where
  "aPet = \<lparr> p_id = 10, p_owner = 1, p_species = ''dog'',
            p_photos = [''a.jpg'', ''b.jpg'', ''c.jpg''], p_isActive = True \<rparr>"

definition aService :: service where
  "aService = \<lparr> s_id = 20, s_sitter = 2, s_price = 10, s_priceType = Hourly,
                s_petTypes = [''dog''], s_instantBooking = False, s_totalBookings = 0,
                s_isActive = True \<rparr>"

definition aBooking :: booking where
  "aBooking = \<lparr> b_id = 30, owner = 1, sitter = 2, service = 20, pet = 10,
                startDate = 1000000000, endDate = 1005400000,
                startTime = None, endTime = None, status = Pending,
                totalPrice = 21, serviceFee = 1, b_notes = None,
                ownerNotes = None, sitterNotes = None, emergencyContact = None,
                checkIn = None, checkOut = None, cancellation = None \<rparr>"

definition aDb :: db where
  "aDb = \<lparr> users = [anOwner, aSitter, otherOwner, formerOwner], pets = [aPet], services = [aService],
           bookings = [aBooking] \<rparr>"

definition atEpoch :: clock where
  "atEpoch = (\<lambda>k. 0)"

text \<open>A request for the same pet and service, for 90 minutes, a day after the stored booking.\<close>

definition aBody :: bookingBody where
  "aBody = \<lparr> rq_service = Some 20, rq_pet = Some 10, rq_startDate = Some 1086400000,
             rq_endDate = Some 1091800000, rq_startTime = None, rq_endTime = None,
             rq_notes = None, rq_emergencyContact = None \<rparr>"

text \<open>The same database with the service priced at the \<^verbatim>\<open>Number\<close> 9.99, and a request for
  five hours.\<close>

definition nineNinetyNine :: rat where
  "nineNinetyNine = fl (999 / 100)"

definition pricedDb :: db where
  "pricedDb = aDb\<lparr>services := [aService\<lparr>s_price := nineNinetyNine\<rparr>]\<rparr>"

definition fiveHours :: bookingBody where
  "fiveHours = aBody\<lparr>rq_endDate := Some 1104400000\<rparr>"

definition samePassword :: "string \<Rightarrow> string \<Rightarrow> bool" where
  "samePassword candidate hash = (''hash-'' @ candidate = hash)"

definition signId :: "user \<Rightarrow> string" where
  "signId u = ''token''"

section \<open>Evaluating the small database\<close>

lemmas demo = anOwner_def aSitter_def otherOwner_def formerOwner_def aPet_def aService_def aBooking_def
  aDb_def atEpoch_def aBody_def pricedDb_def fiveHours_def

subsection \<open>Signs of rounded amounts\<close>

lemma roundHalfEven_nonneg: "0 \<le> r \<Longrightarrow> 0 \<le> roundHalfEven r"
  by (simp add: roundHalfEven_def Let_def)

lemma fl_nonneg: "0 \<le> x \<Longrightarrow> 0 \<le> fl x"
proof (cases "x = 0")
  case True
  then show ?thesis by (simp add: fl_def)
next
  case False
  assume "0 \<le> x"
  with False have pos: "0 < x" by simp
  define k where "k = max (ilog2 \<bar>x\<bar> - 52) (- 1074)"
  have p: "(0::rat) < 2 powi k" by (rule zero_less_power_int) simp
  then have "0 \<le> \<bar>x\<bar> / 2 powi k" by simp
  then have "0 \<le> roundHalfEven (\<bar>x\<bar> / 2 powi k)" by (rule roundHalfEven_nonneg)
  then have "(0::rat) \<le> of_int (roundHalfEven (\<bar>x\<bar> / 2 powi k))" by simp
  with p have m: "(0::rat) \<le> of_int (roundHalfEven (\<bar>x\<bar> / 2 powi k)) * 2 powi k"
    by (intro mult_nonneg_nonneg) simp_all
  have "fl x = sgn x * of_int (roundHalfEven (\<bar>x\<bar> / 2 powi k)) * 2 powi k"
    using False by (simp add: fl_def Let_def k_def)
  also have "\<dots> = of_int (roundHalfEven (\<bar>x\<bar> / 2 powi k)) * 2 powi k"
    using pos by simp
  finally show ?thesis using m by simp
qed

lemma fivePercent_nonneg: "0 \<le> fivePercent"
  by (simp add: fivePercent_def fl_nonneg)

lemma rounded_product_nonneg:
  assumes "0 \<le> p" and "0 < c"
  shows "0 \<le> fl (p * of_int \<lceil>fl (\<bar>y\<bar> / c)\<rceil>)"
proof -
  from assms(2) have "0 \<le> \<bar>y\<bar> / c" by simp
  then have "0 \<le> fl (\<bar>y\<bar> / c)" by (rule fl_nonneg)
  then have "0 \<le> \<lceil>fl (\<bar>y\<bar> / c)\<rceil>" by simp
  then have "(0::rat) \<le> of_int \<lceil>fl (\<bar>y\<bar> / c)\<rceil>" by simp
  with assms(1) have "0 \<le> p * of_int \<lceil>fl (\<bar>y\<bar> / c)\<rceil>" by (rule mult_nonneg_nonneg)
  then show ?thesis by (rule fl_nonneg)
qed

lemma priceFor_nonneg:
  assumes "0 \<le> s_price svc"
  shows "0 \<le> priceFor svc s e"
proof (cases "s_priceType svc")
  case Hourly
  have c: "(0::rat) < 3600000" by simp
  from rounded_product_nonneg[OF assms c] Hourly show ?thesis
    by (simp only: priceFor_def priceType.case)
next
  case Daily
  have c: "(0::rat) < 1000 * 60 * 60 * 24" by simp
  from rounded_product_nonneg[OF assms c] Daily show ?thesis
    by (simp only: priceFor_def priceType.case)
next
  case Weekly
  have c: "(0::rat) < 1000 * 60 * 60 * 24 * 7" by simp
  from rounded_product_nonneg[OF assms c] Weekly show ?thesis
    by (simp only: priceFor_def priceType.case)
next
  case PerService
  with assms show ?thesis by (simp add: priceFor_def)
qed

lemma amounts_nonneg:
  assumes "0 \<le> s_price svc"
  shows "0 \<le> fl (priceFor svc s e * fivePercent)"
    and "0 \<le> fl (priceFor svc s e + fl (priceFor svc s e * fivePercent))"
proof -
  from priceFor_nonneg[OF assms] fivePercent_nonneg
  have f: "0 \<le> priceFor svc s e * fivePercent" by simp
  then show "0 \<le> fl (priceFor svc s e * fivePercent)" by (rule fl_nonneg)
  with priceFor_nonneg[OF assms]
  have "0 \<le> priceFor svc s e + fl (priceFor svc s e * fivePercent)" by simp
  then show "0 \<le> fl (priceFor svc s e + fl (priceFor svc s e * fivePercent))"
    by (rule fl_nonneg)
qed

lemma demo_prices: "0 \<le> nineNinetyNine" "(0::rat) \<le> 10"
  by (simp_all add: nineNinetyNine_def fl_nonneg)

lemmas evalBooking = postBooking_def restrictTo_def validate_def bookingSchema_def
  createBooking_def findConflicts_def blocking_def freshId_def saveCheck_def schemaValid_def
  preSave_def amounts_nonneg demo_prices Let_def

section \<open>Status transitions\<close>

lemma find_statusName:
  "find (\<lambda>t. statusName t = req) ts = Some t \<Longrightarrow> t \<in> set ts \<and> statusName t = req"
  by (induction ts) (auto split: if_splits)

lemma find_statusName_None:
  "find (\<lambda>t. statusName t = req) ts = None \<longleftrightarrow> req \<notin> set (map statusName ts)"
  by (induction ts) auto

lemma bookings_saveBooking:
  "bookings (saveBooking d b) = map (\<lambda>x. if b_id x = b_id b then b else x) (bookings d)"
  by (simp add: saveBooking_def)

lemma bookings_incTotalBookings: "bookings (incTotalBookings d sid) = bookings d"
  by (simp add: incTotalBookings_def)

lemma findBookingFor_id: "findBookingFor d caller bid = Some b \<Longrightarrow> b_id b = bid"
  by (auto simp: findBookingFor_def find_Some_iff)

text \<open>
  C1, as the code has it. For every booking the caller can reach, the status update
  (\<^verbatim>\<open>PATCH /api/bookings/:id/status\<close>) changes the status only along the transition table:
  a successful update stores a booking whose status is the requested one and is listed in
  the table for the old status, and changes no other booking; a failed update changes
  nothing; and a request for a status outside the table always fails, with the 403 of the
  role check when the caller's role may not ask for that status and with
  \<open>InvalidTransition\<close> (400, naming the current and the requested status) otherwise.
  Check-in and check-out are not part of this statement.
\<close>

theorem updateBookingStatus_table:
  assumes "findBookingFor d caller bid = Some b"
  shows "(\<forall>b' d'. updateBookingStatus d caller bid req rnotes clk = (Inr b', d') \<longrightarrow>
            status b' \<in> set (validTransitions (status b)) \<and> statusName (status b') = req
            \<and> bookings d' = map (\<lambda>x. if b_id x = bid then b' else x) (bookings d))
       \<and> (\<forall>e d'. updateBookingStatus d caller bid req rnotes clk = (Inl e, d') \<longrightarrow> d' = d)
       \<and> (req \<notin> set (map statusName (validTransitions (status b))) \<longrightarrow>
            updateBookingStatus d caller bid req rnotes clk =
              (Inl (case roleGate caller req of Some e \<Rightarrow> e
                                              | None \<Rightarrow> InvalidTransition (status b) req), d))"
proof (intro conjI allI impI)
  fix b' d'
  assume ok: "updateBookingStatus d caller bid req rnotes clk = (Inr b', d')"
  from ok assms obtain t
    where t: "find (\<lambda>t. statusName t = req) (validTransitions (status b)) = Some t"
    by (auto simp: updateBookingStatus_def split: option.splits)
  from ok assms t have st: "status b' = t"
    by (auto simp: updateBookingStatus_def Let_def split: option.splits if_splits role.splits)
  from ok assms t have id: "b_id b' = b_id b"
    by (auto simp: updateBookingStatus_def Let_def split: option.splits if_splits role.splits)
  from ok assms t have d': "bookings d' = bookings (saveBooking d b')"
    by (auto simp: updateBookingStatus_def Let_def bookings_incTotalBookings
             split: option.splits if_splits role.splits)
  from find_statusName[OF t] st
  show "status b' \<in> set (validTransitions (status b))" by simp
  from find_statusName[OF t] st show "statusName (status b') = req" by simp
  from d' id findBookingFor_id[OF assms]
  show "bookings d' = map (\<lambda>x. if b_id x = bid then b' else x) (bookings d)"
    by (simp add: bookings_saveBooking)
next
  fix e d'
  assume "updateBookingStatus d caller bid req rnotes clk = (Inl e, d')"
  then show "d' = d"
    by (auto simp: updateBookingStatus_def Let_def split: option.splits if_splits)
next
  assume "req \<notin> set (map statusName (validTransitions (status b)))"
  then have "find (\<lambda>t. statusName t = req) (validTransitions (status b)) = None"
    by (simp add: find_statusName_None)
  with assms
  show "updateBookingStatus d caller bid req rnotes clk =
          (Inl (case roleGate caller req of Some e \<Rightarrow> e
                                          | None \<Rightarrow> InvalidTransition (status b) req), d)"
    by (simp add: updateBookingStatus_def split: option.splits)
qed

text \<open>The sitter of the stored pending booking asks for \<^verbatim>\<open>completed\<close>: the table has no
  such step from \<^verbatim>\<open>pending\<close>, the answer is \<open>InvalidTransition\<close> and nothing changes.
  Then the sitter confirms the booking.\<close>

theorem updateBookingStatus_table_witness:
  "findBookingFor aDb aSitter 30 = Some aBooking
   \<and> updateBookingStatus aDb aSitter 30 ''completed'' None atEpoch
       = (Inl (InvalidTransition Pending ''completed''), aDb)
   \<and> (\<exists>b' d'. updateBookingStatus aDb aSitter 30 ''confirmed'' None atEpoch = (Inr b', d')
          \<and> status b' = Confirmed \<and> bookings d' = [b'])"
proof -
  obtain b' d' where
    r: "updateBookingStatus aDb aSitter 30 ''confirmed'' None atEpoch = (Inr b', d')"
    by (simp add: updateBookingStatus_def roleGate_def allowedStatuses_def findBookingFor_def
        saveCheck_def schemaValid_def preSave_def demo Let_def)
  have h: "findBookingFor aDb aSitter 30 = Some aBooking"
    by (simp add: findBookingFor_def demo)
  have n: "''completed'' \<notin> set (map statusName (validTransitions (status aBooking)))"
    by (simp add: aBooking_def)
  have g: "roleGate aSitter ''completed'' = None"
    by (simp add: roleGate_def allowedStatuses_def aSitter_def)
  from updateBookingStatus_table[OF h, of "''completed''" None atEpoch] n
  have "updateBookingStatus aDb aSitter 30 ''completed'' None atEpoch =
          (Inl (case roleGate aSitter ''completed'' of Some e \<Rightarrow> e
                | None \<Rightarrow> InvalidTransition (status aBooking) ''completed''), aDb)"
    by blast
  with h g have 1: "updateBookingStatus aDb aSitter 30 ''completed'' None atEpoch
                      = (Inl (InvalidTransition Pending ''completed''), aDb)"
    by (simp add: aBooking_def)
  from updateBookingStatus_table[OF h, of "''confirmed''" None atEpoch] r
  have "status b' \<in> set (validTransitions (status aBooking))"
    "statusName (status b') = ''confirmed''"
    "bookings d' = map (\<lambda>x. if b_id x = 30 then b' else x) (bookings aDb)"
    by blast+
  then have 2: "status b' = Confirmed \<and> bookings d' = [b']"
    by (auto simp: demo)
  from h 1 r 2 show ?thesis by blast
qed

text \<open>
  C1 as stated fails twice. The owner of the stored pending booking asks for
  \<^verbatim>\<open>completed\<close>, which the table does not allow from \<^verbatim>\<open>pending\<close>: the answer is the 403 of
  the role check, not \<open>InvalidTransition\<close>. And the sitter checks in on the same booking
  once it is cancelled: the call succeeds and the status goes from \<^verbatim>\<open>cancelled\<close>, a
  terminal status, to \<^verbatim>\<open>in_progress\<close>.
\<close>

theorem status_table_counterexample:
  "updateBookingStatus aDb anOwner 30 ''completed'' None atEpoch = (Inl OwnersOnlyCancel, aDb)
   \<and> statusCode OwnersOnlyCancel = 403
   \<and> Completed \<notin> set (validTransitions (status aBooking))
   \<and> (\<exists>b' d'. postCheckInOut (aDb\<lparr>bookings := [aBooking\<lparr>status := Cancelled\<rparr>]\<rparr>)
                 aSitter 30 True None None atEpoch = (Inr b', d')
        \<and> status b' = InProgress \<and> bookings d' = [b'])
   \<and> InProgress \<notin> set (validTransitions Cancelled)"
  by (simp add: updateBookingStatus_def roleGate_def postCheckInOut_def checkInOut_def
      restrictTo_def saveCheck_def schemaValid_def preSave_def saveBooking_def demo Let_def)

section \<open>Creating a booking\<close>

lemma postBooking_Inr:
  assumes "postBooking d caller body clk = (Inr b, d')"
  shows "\<exists>sid pid s e. rq_service body = Some sid \<and> rq_pet body = Some pid
            \<and> rq_startDate body = Some s \<and> rq_endDate body = Some e
            \<and> u_role caller = Owner \<and> bookingSchema body (clk 0)
            \<and> createBooking d caller sid pid s e body (clk 1) = (Inr b, d')"
  using assms
  by (auto simp: postBooking_def restrictTo_def validate_def split: option.splits if_splits)

lemma createBooking_Inr:
  assumes "createBooking d caller sid pid s e body now = (Inr b, d')"
  shows "\<exists>svc pt sit.
           find (\<lambda>x. s_id x = sid \<and> s_isActive x) (services d) = Some svc
         \<and> find (\<lambda>p. p_id p = pid \<and> p_owner p = u_id caller \<and> p_isActive p) (pets d) = Some pt
         \<and> p_species pt \<in> set (s_petTypes svc)
         \<and> find (\<lambda>u. u_id u = s_sitter svc) (users d) = Some sit
         \<and> findConflicts (bookings d) (u_id sit) s e = []
         \<and> service b = sid \<and> pet b = pid \<and> startDate b = s \<and> endDate b = e
         \<and> owner b = u_id caller \<and> sitter b = u_id sit
         \<and> status b = (if s_instantBooking svc then Confirmed else Pending)
         \<and> serviceFee b = fl (priceFor svc s e * fivePercent)
         \<and> totalPrice b = fl (priceFor svc s e + fl (priceFor svc s e * fivePercent))
         \<and> saveCheck True now b = None
         \<and> d' = d\<lparr>bookings := bookings d @ [b]\<rparr>"
  using assms
  by (auto simp: createBooking_def Let_def split: option.splits if_splits)

lemma saveCheck_None_dates: "saveCheck isNew now b = None \<Longrightarrow> startDate b < endDate b"
  by (auto simp: saveCheck_def preSave_def split: if_splits)

text \<open>The amounts of a booking created on an hourly service, operation by operation.\<close>

lemma postBooking_hourly:
  assumes "postBooking d caller body clk = (Inr b, d')"
      and "find (\<lambda>x. s_id x = service b \<and> s_isActive x) (services d) = Some svc"
      and "s_priceType svc = Hourly"
  shows "rq_startDate body = Some (startDate b)" and "rq_endDate body = Some (endDate b)"
    and "d' = d\<lparr>bookings := bookings d @ [b]\<rparr>"
    and "serviceFee b =
           fl (fl (s_price svc * of_int \<lceil>fl (fl (of_int (endDate b - startDate b)) / 3600000)\<rceil>)
               * fivePercent)"
    and "totalPrice b =
           fl (fl (s_price svc * of_int \<lceil>fl (fl (of_int (endDate b - startDate b)) / 3600000)\<rceil>)
               + fl (fl (s_price svc * of_int \<lceil>fl (fl (of_int (endDate b - startDate b)) / 3600000)\<rceil>)
                     * fivePercent))"
proof -
  from postBooking_Inr[OF assms(1)] obtain sid pid s e where
    body: "rq_startDate body = Some s" "rq_endDate body = Some e"
    and cr: "createBooking d caller sid pid s e body (clk 1) = (Inr b, d')" by blast
  from createBooking_Inr[OF cr] obtain svc' where
    f: "find (\<lambda>x. s_id x = sid \<and> s_isActive x) (services d) = Some svc'"
    and b: "service b = sid" "startDate b = s" "endDate b = e"
    and fee: "serviceFee b = fl (priceFor svc' s e * fivePercent)"
    and tot: "totalPrice b = fl (priceFor svc' s e + fl (priceFor svc' s e * fivePercent))"
    and sv: "saveCheck True (clk 1) b = None"
    and d': "d' = d\<lparr>bookings := bookings d @ [b]\<rparr>" by blast
  from f b(1) assms(2) have svc: "svc' = svc" by simp
  from saveCheck_None_dates[OF sv] b have "0 \<le> (of_int (e - s) :: rat)" by simp
  then have "0 \<le> fl (of_int (e - s))" by (rule fl_nonneg)
  then have abs: "\<bar>fl (of_int (e - s))\<bar> = fl (of_int (e - s))" by simp
  have price: "priceFor svc s e =
                 fl (s_price svc * of_int \<lceil>fl (fl (of_int (e - s)) / 3600000)\<rceil>)"
    using assms(3) by (simp only: priceFor_def priceType.case abs)
  from body b show "rq_startDate body = Some (startDate b)"
    and "rq_endDate body = Some (endDate b)" by simp_all
  from d' show "d' = d\<lparr>bookings := bookings d @ [b]\<rparr>" .
  from fee show "serviceFee b =
           fl (fl (s_price svc * of_int \<lceil>fl (fl (of_int (endDate b - startDate b)) / 3600000)\<rceil>)
               * fivePercent)"
    unfolding svc price b .
  from tot show "totalPrice b =
           fl (fl (s_price svc * of_int \<lceil>fl (fl (of_int (endDate b - startDate b)) / 3600000)\<rceil>)
               + fl (fl (s_price svc * of_int \<lceil>fl (fl (of_int (endDate b - startDate b)) / 3600000)\<rceil>)
                     * fivePercent))"
    unfolding svc price b .
qed


lemma hourly_nineNinetyNine:
  "fl (fl (nineNinetyNine * of_int \<lceil>fl (fl (of_int 18000000) / 3600000)\<rceil>) * fivePercent)
     = 1405967508669727 / 562949953421312"
  "fl (fl (nineNinetyNine * of_int \<lceil>fl (fl (of_int 18000000) / 3600000)\<rceil>)
       + fl (fl (nineNinetyNine * of_int \<lceil>fl (fl (of_int 18000000) / 3600000)\<rceil>) * fivePercent))
     = 3690664710258033 / 70368744177664"
  "(3690664710258033 / 70368744177664 :: rat)
     \<noteq> nineNinetyNine * of_int \<lceil>(18000000 :: rat) / 3600000\<rceil>
       + 5 / 100 * (nineNinetyNine * of_int \<lceil>(18000000 :: rat) / 3600000\<rceil>)"
  by code_simp+



text \<open>
  C2 as stated fails. On the service priced at the \<^verbatim>\<open>Number\<close> 9.99 a booking of five
  hours is stored with \<^verbatim>\<open>serviceFee\<close> 2.4975000000000005 and \<^verbatim>\<open>totalPrice\<close>
  52.447500000000005 (the two fractions below), which is not the price times 5 plus 5
  percent of that.
\<close>

theorem hourly_price_counterexample:
  "(case postBooking pricedDb anOwner fiveHours atEpoch of
      (Inr b, d') \<Rightarrow>
         endDate b - startDate b = 5 * 3600000
       \<and> serviceFee b = 1405967508669727 / 562949953421312
       \<and> totalPrice b = 3690664710258033 / 70368744177664
       \<and> totalPrice b \<noteq> nineNinetyNine * of_int \<lceil>(18000000 :: rat) / 3600000\<rceil>
                          + 5 / 100 * (nineNinetyNine * of_int \<lceil>(18000000 :: rat) / 3600000\<rceil>)
    | (Inl e, d') \<Rightarrow> False)"
proof -
  obtain b d' where r: "postBooking pricedDb anOwner fiveHours atEpoch = (Inr b, d')"
    and b: "service b = 20" "endDate b - startDate b = 18000000"
    by (simp add: evalBooking demo)
  have f: "find (\<lambda>x. s_id x = service b \<and> s_isActive x) (services pricedDb)
             = Some (aService\<lparr>s_price := nineNinetyNine\<rparr>)"
    using b(1) by (simp add: demo)
  have h: "s_priceType (aService\<lparr>s_price := nineNinetyNine\<rparr>) = Hourly"
    by (simp add: aService_def)
  have p: "s_price (aService\<lparr>s_price := nineNinetyNine\<rparr>) = nineNinetyNine" by simp
  note a = postBooking_hourly(4,5)[OF r f h, unfolded p b(2)]
  have fee: "serviceFee b = 1405967508669727 / 562949953421312"
    by (rule trans[OF a(1) hourly_nineNinetyNine(1)])
  have tot: "totalPrice b = 3690664710258033 / 70368744177664"
    by (rule trans[OF a(2) hourly_nineNinetyNine(2)])
  from hourly_nineNinetyNine(3)
  have ne: "totalPrice b \<noteq> nineNinetyNine * of_int \<lceil>(18000000 :: rat) / 3600000\<rceil>
                          + 5 / 100 * (nineNinetyNine * of_int \<lceil>(18000000 :: rat) / 3600000\<rceil>)"
    unfolding tot .
  from b(2) have "endDate b - startDate b = 5 * 3600000" by simp
  with r fee tot ne show ?thesis by (simp only: prod.case sum.case simp_thms)
qed

section \<open>Cancellation and refund\<close>

lemma of_int_hours: "(of_int x :: rat) / (1000 * 60 * 60) > of_int n \<longleftrightarrow> x > n * 3600000"
proof -
  have "(of_int x :: rat) / (1000 * 60 * 60) > of_int n \<longleftrightarrow> (of_int x :: rat) > of_int n * 3600000"
    by (simp add: pos_less_divide_eq)
  also have "\<dots> \<longleftrightarrow> (of_int x :: rat) > of_int (n * 3600000)" by simp
  also have "\<dots> \<longleftrightarrow> x > n * 3600000" by (simp only: of_int_less_iff)
  finally show ?thesis .
qed

text \<open>
  C3. For every booking the caller can reach, a request to cancel succeeds only if the
  booking is neither completed nor cancelled and its start is strictly more than 24 hours
  after the reading of the clock that \<^verbatim>\<open>canBeCancelled\<close> makes; in every other case the
  request fails and nothing changes. When it succeeds the booking is cancelled and the
  cancellation records who cancelled, when and why, and as refund the full
  \<^verbatim>\<open>totalPrice\<close> if the start is more than 48 hours after the reading that
  \<^verbatim>\<open>calculateRefund\<close> makes, half of it if the start is more than 24 and at most 48
  hours after it, and 0 otherwise. Hours are counted in milliseconds, 3600000 each.
  The record is stored: the booking returned is the old one with the cancellation, the
  status \<^verbatim>\<open>cancelled\<close> and, when the request carries notes, the owner's notes; the
  database afterwards is the old one with that booking in the place of the old booking,
  and nothing else changed.
\<close>

theorem cancellation_policy:
  assumes "findBookingFor d caller bid = Some b"
  shows "(\<forall>b' d'. updateBookingStatus d caller bid ''cancelled'' rnotes clk = (Inr b', d') \<longrightarrow>
            status b \<noteq> Completed \<and> status b \<noteq> Cancelled
          \<and> startDate b - clk 0 > 24 * 3600000
          \<and> status b' = Cancelled
          \<and> (\<exists>c. cancellation b' = Some c \<and> cancelledBy c = u_id caller
                 \<and> cancelledAt c = clk 1 \<and> reason c = rnotes
                 \<and> refundAmount c =
                     (if startDate b - clk 2 > 48 * 3600000 then totalPrice b
                      else if startDate b - clk 2 > 24 * 3600000 then totalPrice b / 2
                      else 0)
                 \<and> b' = b\<lparr>cancellation := Some c, status := Cancelled,
                           ownerNotes := (if truthy rnotes then rnotes else ownerNotes b)\<rparr>)
          \<and> d' = d\<lparr>bookings := map (\<lambda>x. if b_id x = bid then b' else x) (bookings d)\<rparr>)
       \<and> (status b = Completed \<or> status b = Cancelled \<or> startDate b - clk 0 \<le> 24 * 3600000 \<longrightarrow>
            (\<exists>e. updateBookingStatus d caller bid ''cancelled'' rnotes clk = (Inl e, d)))"
proof (intro conjI allI impI)
  fix b' d'
  assume ok: "updateBookingStatus d caller bid ''cancelled'' rnotes clk = (Inr b', d')"
  from ok assms obtain t
    where t: "find (\<lambda>t. statusName t = ''cancelled'') (validTransitions (status b)) = Some t"
    by (auto simp: updateBookingStatus_def split: option.splits)
  have tc: "t = Cancelled" using t by (cases "status b") (auto split: if_splits)
  from ok assms t tc have can: "canBeCancelled b (clk 0)"
    by (auto simp: updateBookingStatus_def Let_def split: option.splits if_splits)
  from can show "status b \<noteq> Completed" by (auto simp: canBeCancelled_def split: if_splits)
  from can show "status b \<noteq> Cancelled" by (auto simp: canBeCancelled_def split: if_splits)
  from can have "hoursUntilStart b (clk 0) > of_int 24"
    by (auto simp: canBeCancelled_def split: if_splits)
  then show "startDate b - clk 0 > 24 * 3600000"
    unfolding hoursUntilStart_def of_int_hours by simp
  from ok assms t tc show "status b' = Cancelled"
    by (auto simp: updateBookingStatus_def Let_def split: option.splits if_splits role.splits)
  have r: "calculateRefund b (clk 2) =
             (if startDate b - clk 2 > 48 * 3600000 then totalPrice b
              else if startDate b - clk 2 > 24 * 3600000 then totalPrice b / 2
              else 0)"
    using of_int_hours[of 48 "startDate b - clk 2"] of_int_hours[of 24 "startDate b - clk 2"]
    by (simp add: calculateRefund_def hoursUntilStart_def)
  let ?c = "\<lparr> cancelledBy = u_id caller, cancelledAt = clk 1,
              reason = rnotes, refundAmount = calculateRefund b (clk 2) \<rparr>"
  from ok assms t tc have "cancellation b' = Some ?c"
    by (auto simp: updateBookingStatus_def Let_def split: option.splits if_splits role.splits)
  moreover from ok assms t tc
  have "b' = b\<lparr>cancellation := Some ?c, status := Cancelled,
               ownerNotes := (if truthy rnotes then rnotes else ownerNotes b)\<rparr>"
    by (auto simp: updateBookingStatus_def roleGate_def allowedStatuses_def Let_def
             split: option.splits if_splits role.splits)
  ultimately
  show "\<exists>c. cancellation b' = Some c \<and> cancelledBy c = u_id caller
                 \<and> cancelledAt c = clk 1 \<and> reason c = rnotes
                 \<and> refundAmount c =
                     (if startDate b - clk 2 > 48 * 3600000 then totalPrice b
                      else if startDate b - clk 2 > 24 * 3600000 then totalPrice b / 2
                      else 0)
                 \<and> b' = b\<lparr>cancellation := Some c, status := Cancelled,
                           ownerNotes := (if truthy rnotes then rnotes else ownerNotes b)\<rparr>"
    using r by (intro exI[of _ ?c]) simp
  from ok assms t tc have "d' = saveBooking d b'" and "b_id b' = b_id b"
    by (auto simp: updateBookingStatus_def Let_def split: option.splits if_splits role.splits)
  with findBookingFor_id[OF assms]
  show "d' = d\<lparr>bookings := map (\<lambda>x. if b_id x = bid then b' else x) (bookings d)\<rparr>"
    by (simp add: saveBooking_def)
next
  assume a: "status b = Completed \<or> status b = Cancelled \<or> startDate b - clk 0 \<le> 24 * 3600000"
  have "\<not> hoursUntilStart b (clk 0) > of_int 24" if "startDate b - clk 0 \<le> 24 * 3600000"
    unfolding hoursUntilStart_def of_int_hours using that by simp
  with a have nc: "\<not> canBeCancelled b (clk 0)" by (auto simp: canBeCancelled_def)
  show "\<exists>e. updateBookingStatus d caller bid ''cancelled'' rnotes clk = (Inl e, d)"
  proof (cases "find (\<lambda>t. statusName t = ''cancelled'') (validTransitions (status b))")
    case None
    with assms show ?thesis
      by (auto simp: updateBookingStatus_def split: option.splits)
  next
    case (Some t)
    then have "t = Cancelled" by (cases "status b") (auto split: if_splits)
    with Some nc assms show ?thesis
      by (auto simp: updateBookingStatus_def split: option.splits)
  qed
qed

text \<open>The owner cancels the stored booking 30 hours before its start: half of the total
  price, 21, is recorded as refund, and the cancelled booking is the one stored. Ten
  hours before its start the request fails.\<close>

theorem cancellation_policy_witness:
  "findBookingFor aDb anOwner 30 = Some aBooking
   \<and> (\<exists>b' d' c. updateBookingStatus aDb anOwner 30 ''cancelled'' None (\<lambda>k. 892000000) = (Inr b', d')
         \<and> status b' = Cancelled \<and> cancellation b' = Some c \<and> refundAmount c = 21 / 2
         \<and> d' = aDb\<lparr>bookings := [b']\<rparr>)
   \<and> (\<exists>e. updateBookingStatus aDb anOwner 30 ''cancelled'' None (\<lambda>k. 964000000) = (Inl e, aDb))"
proof -
  have h: "findBookingFor aDb anOwner 30 = Some aBooking"
    by (simp add: findBookingFor_def demo)
  obtain b' d' where
    r: "updateBookingStatus aDb anOwner 30 ''cancelled'' None (\<lambda>k. 892000000) = (Inr b', d')"
    by (simp add: updateBookingStatus_def roleGate_def findBookingFor_def canBeCancelled_def
        hoursUntilStart_def saveCheck_def schemaValid_def preSave_def demo Let_def)
  from cancellation_policy[OF h, of None "\<lambda>k. 892000000"] r
  obtain c where "status b' = Cancelled" "cancellation b' = Some c"
    "refundAmount c =
       (if startDate aBooking - 892000000 > 48 * 3600000 then totalPrice aBooking
        else if startDate aBooking - 892000000 > 24 * 3600000 then totalPrice aBooking / 2
        else 0)"
    "d' = aDb\<lparr>bookings := map (\<lambda>x. if b_id x = 30 then b' else x) (bookings aDb)\<rparr>"
    by blast
  then have 1: "status b' = Cancelled \<and> cancellation b' = Some c \<and> refundAmount c = 21 / 2
                \<and> d' = aDb\<lparr>bookings := [b']\<rparr>"
    by (simp add: demo)
  have late: "startDate aBooking - 964000000 \<le> 24 * 3600000" by (simp add: aBooking_def)
  from cancellation_policy[OF h, of None "\<lambda>k. 964000000"] late
  have 2: "\<exists>e. updateBookingStatus aDb anOwner 30 ''cancelled'' None (\<lambda>k. 964000000) = (Inl e, aDb)"
    by blast
  from h r 1 2 show ?thesis by blast
qed

section \<open>Deleting a pet\<close>

lemma findPet_savePet_inactive:
  assumes "findPet d pid caller = Some p"
  shows "findPet (savePet d (p\<lparr>p_isActive := False\<rparr>)) pid caller = None"
proof -
  from assms have id: "p_id p = pid" by (auto simp: findPet_def find_Some_iff)
  have "\<not> (p_id x = pid \<and> p_owner x = u_id caller \<and> p_isActive x)"
    if "x \<in> set (pets (savePet d (p\<lparr>p_isActive := False\<rparr>)))" for x
    using that id by (auto simp: savePet_def split: if_splits)
  then show ?thesis by (auto simp: findPet_def find_None_iff)
qed

text \<open>
  C4, as the code has it. For every pet that \<^verbatim>\<open>DELETE /api/pets/:id\<close> finds for a caller
  with the role owner (a stored pet with that id, active and the caller's), the first
  call succeeds and leaves the database with that pet stored inactive and nothing else
  changed; the same call made again fails with the 404 \<open>NoPetFound\<close> and leaves the
  database as the first call left it.
\<close>

theorem deletePet_twice:
  assumes "u_role caller = Owner" and "findPet d pid caller = Some p"
  shows "routeDeletePet d caller pid =
           (Inr (), d\<lparr>pets := map (\<lambda>x. if p_id x = pid then p\<lparr>p_isActive := False\<rparr> else x)
                                  (pets d)\<rparr>)
       \<and> routeDeletePet
           (d\<lparr>pets := map (\<lambda>x. if p_id x = pid then p\<lparr>p_isActive := False\<rparr> else x) (pets d)\<rparr>)
           caller pid =
           (Inl NoPetFound,
            d\<lparr>pets := map (\<lambda>x. if p_id x = pid then p\<lparr>p_isActive := False\<rparr> else x) (pets d)\<rparr>)
       \<and> statusCode NoPetFound = 404"
proof -
  let ?d1 = "d\<lparr>pets := map (\<lambda>x. if p_id x = pid then p\<lparr>p_isActive := False\<rparr> else x) (pets d)\<rparr>"
  from assms(1) have role: "restrictTo [Owner] caller = None"
    by (simp add: restrictTo_def)
  from assms(2) have id: "p_id p = pid" by (auto simp: findPet_def find_Some_iff)
  then have d1: "savePet d (p\<lparr>p_isActive := False\<rparr>) = ?d1" by (simp add: savePet_def)
  from role assms(2) d1 have 1: "routeDeletePet d caller pid = (Inr (), ?d1)"
    by (simp add: routeDeletePet_def deletePet_def)
  from findPet_savePet_inactive[OF assms(2)] d1 have "findPet ?d1 pid caller = None" by simp
  with role have 2: "routeDeletePet ?d1 caller pid = (Inl NoPetFound, ?d1)"
    by (simp add: routeDeletePet_def deletePet_def)
  from 1 2 show ?thesis by simp
qed

text \<open>The owner of the small database deletes the dog twice.\<close>

theorem deletePet_twice_witness:
  "u_role anOwner = Owner \<and> findPet aDb 10 anOwner = Some aPet
   \<and> routeDeletePet aDb anOwner 10 = (Inr (), aDb\<lparr>pets := [aPet\<lparr>p_isActive := False\<rparr>]\<rparr>)
   \<and> routeDeletePet (aDb\<lparr>pets := [aPet\<lparr>p_isActive := False\<rparr>]\<rparr>) anOwner 10
       = (Inl NoPetFound, aDb\<lparr>pets := [aPet\<lparr>p_isActive := False\<rparr>]\<rparr>)"
proof -
  have h: "u_role anOwner = Owner" "findPet aDb 10 anOwner = Some aPet"
    by (simp_all add: findPet_def demo)
  have m: "aDb\<lparr>pets := map (\<lambda>x. if p_id x = 10 then aPet\<lparr>p_isActive := False\<rparr> else x) (pets aDb)\<rparr>
             = aDb\<lparr>pets := [aPet\<lparr>p_isActive := False\<rparr>]\<rparr>"
    by (simp add: demo)
  from deletePet_twice[OF h] h show ?thesis unfolding m by simp
qed

text \<open>C4 as stated fails: the second delete of the same pet does not succeed, it is
  answered 404.\<close>

theorem softDelete_twice_counterexample:
  "routeDeletePet aDb anOwner 10 = (Inr (), aDb\<lparr>pets := [aPet\<lparr>p_isActive := False\<rparr>]\<rparr>)
   \<and> fst (routeDeletePet (aDb\<lparr>pets := [aPet\<lparr>p_isActive := False\<rparr>]\<rparr>) anOwner 10)
       = Inl NoPetFound
   \<and> statusCode NoPetFound = 404"
  by (simp add: routeDeletePet_def restrictTo_def deletePet_def findPet_def savePet_def demo)

section \<open>Dates of a new booking\<close>

lemma postBooking_bad_dates_rejected:
  assumes "rq_startDate body = Some s" and "rq_endDate body = Some e"
      and "e \<le> s \<or> s < clk 0" and "clk 0 \<le> clk 1"
  shows "\<exists>err. postBooking d caller body clk = (Inl err, d)"
proof (cases "postBooking d caller body clk")
  case (Pair r d')
  show ?thesis
  proof (cases r)
    case (Inl err)
    with Pair have "d' = d"
      by (auto simp: postBooking_def createBooking_def Let_def split: option.splits if_splits)
    with Pair Inl show ?thesis by simp
  next
    case (Inr b)
    from postBooking_Inr[OF Pair[unfolded Inr]] assms(1,2) obtain sid pid
      where v: "bookingSchema body (clk 0)"
        and c: "createBooking d caller sid pid s e body (clk 1) = (Inr b, d')" by auto
    from createBooking_Inr[OF c]
    have b: "startDate b = s" "endDate b = e" "saveCheck True (clk 1) b = None" by auto
    from b have "s < e" "\<not> s < clk 1"
      by (auto simp: saveCheck_def preSave_def split: if_splits)
    with assms(3,4) show ?thesis by auto
  qed
qed

lemma postBooking_bad_dates_validation:
  assumes "u_role caller = Owner"
      and "rq_startDate body = Some s" and "rq_endDate body = Some e"
      and "e < s \<or> s < clk 0"
  shows "postBooking d caller body clk = (Inl ValidationFailed, d)"
  using assms by (auto simp: postBooking_def restrictTo_def validate_def bookingSchema_def)

text \<open>
  C5 at a request whose end date equals its start date, a day after the stored booking:
  the body passes \<^verbatim>\<open>validate\<close>, the pre-save hook throws a plain \<^verbatim>\<open>Error\<close>, and the
  client receives status 500 with the envelope \<^verbatim>\<open>error\<close>, not the 400 of a validation
  failure. No booking is stored.
\<close>

theorem equal_dates_server_error:
  "rq_endDate (aBody\<lparr>rq_endDate := Some 1086400000\<rparr>)
     = rq_startDate (aBody\<lparr>rq_endDate := Some 1086400000\<rparr>)
   \<and> validate (aBody\<lparr>rq_endDate := Some 1086400000\<rparr>) (atEpoch 0) = None
   \<and> postBooking aDb anOwner (aBody\<lparr>rq_endDate := Some 1086400000\<rparr>) atEpoch
       = (Inl (ThrownError ''End date must be after start date''), aDb)
   \<and> statusCode (ThrownError ''End date must be after start date'') = 500
   \<and> envelope (ThrownError ''End date must be after start date'') = ''error''"
  by (simp add: evalBooking envelope_def demo)

section \<open>Conflicting bookings\<close>

lemma findConflicts_nonempty:
  "findConflicts bs sid s e \<noteq> [] \<longleftrightarrow>
     (\<exists>x \<in> set bs. sitter x = sid \<and> status x \<in> {Pending, Confirmed, InProgress}
                   \<and> startDate x \<le> e \<and> endDate x \<ge> s)"
  by (auto simp: findConflicts_def blocking_def filter_empty_conv)

lemma saveCheck_not_Slot: "saveCheck isNew now b \<noteq> Some SlotUnavailable"
  by (simp add: saveCheck_def preSave_def)

lemma createBooking_Slot:
  "fst (createBooking d caller sid pid s e body now) = Inl SlotUnavailable \<longleftrightarrow>
     (\<exists>svc pt sit.
         find (\<lambda>x. s_id x = sid \<and> s_isActive x) (services d) = Some svc
       \<and> find (\<lambda>p. p_id p = pid \<and> p_owner p = u_id caller \<and> p_isActive p) (pets d) = Some pt
       \<and> p_species pt \<in> set (s_petTypes svc)
       \<and> find (\<lambda>u. u_id u = s_sitter svc) (users d) = Some sit
       \<and> findConflicts (bookings d) (u_id sit) s e \<noteq> [])"
  using saveCheck_not_Slot
  by (auto simp: createBooking_def Let_def split: option.splits)

lemma postBooking_Slot:
  "fst (postBooking d caller body clk) = Inl SlotUnavailable \<longleftrightarrow>
     (\<exists>sid s e. conflictCheckInput d caller body clk = Some (sid, s, e)
        \<and> findConflicts (bookings d) sid s e \<noteq> [])"
  by (auto simp: postBooking_def restrictTo_def validate_def conflictCheckInput_def
        createBooking_Slot split: option.splits)

lemma conflictCheckInput_bookings:
  "conflictCheckInput (d\<lparr>bookings := bs\<rparr>) caller body clk = conflictCheckInput d caller body clk"
  by (simp add: conflictCheckInput_def split: option.splits)

lemma findConflicts_filter:
  "findConflicts (filter (\<lambda>x. status x \<notin> {Completed, Cancelled, Declined}) bs) sid s e
     = findConflicts bs sid s e"
  by (induction bs) (auto simp: findConflicts_def blocking_def)

text \<open>
  C6. \<^verbatim>\<open>POST /api/bookings\<close> fails with \<open>SlotUnavailable\<close> exactly when the request gets
  as far as the conflict check and some stored booking of the service's sitter has a
  status among pending, confirmed and in_progress and an interval that overlaps the
  requested one, in the sense that it starts no later than the requested end and ends no
  earlier than the requested start. Bookings that are completed, cancelled or declined
  never block: taking them out of the database does not change whether the answer is
  \<open>SlotUnavailable\<close>.
\<close>

theorem slot_unavailable_iff:
  "(fst (postBooking d caller body clk) = Inl SlotUnavailable \<longleftrightarrow>
     (\<exists>sid s e. conflictCheckInput d caller body clk = Some (sid, s, e)
        \<and> (\<exists>x \<in> set (bookings d). sitter x = sid \<and> status x \<in> {Pending, Confirmed, InProgress}
                                 \<and> startDate x \<le> e \<and> endDate x \<ge> s)))
   \<and> (fst (postBooking (d\<lparr>bookings := filter (\<lambda>x. status x \<notin> {Completed, Cancelled, Declined})
                                               (bookings d)\<rparr>) caller body clk) = Inl SlotUnavailable
        \<longleftrightarrow> fst (postBooking d caller body clk) = Inl SlotUnavailable)"
proof
  show "fst (postBooking d caller body clk) = Inl SlotUnavailable \<longleftrightarrow>
     (\<exists>sid s e. conflictCheckInput d caller body clk = Some (sid, s, e)
        \<and> (\<exists>x \<in> set (bookings d). sitter x = sid \<and> status x \<in> {Pending, Confirmed, InProgress}
                                 \<and> startDate x \<le> e \<and> endDate x \<ge> s))"
    unfolding postBooking_Slot findConflicts_nonempty ..
  show "fst (postBooking (d\<lparr>bookings := filter (\<lambda>x. status x \<notin> {Completed, Cancelled, Declined})
                                               (bookings d)\<rparr>) caller body clk) = Inl SlotUnavailable
        \<longleftrightarrow> fst (postBooking d caller body clk) = Inl SlotUnavailable"
  proof -
    have sel: "bookings (d\<lparr>bookings := filter (\<lambda>x. status x \<notin> {Completed, Cancelled, Declined})
                                             (bookings d)\<rparr>)
                 = filter (\<lambda>x. status x \<notin> {Completed, Cancelled, Declined}) (bookings d)"
      by simp
    show ?thesis
      unfolding postBooking_Slot conflictCheckInput_bookings sel findConflicts_filter ..
  qed
qed

text \<open>A request that starts at the very millisecond the stored pending booking ends is
  refused; once that booking is cancelled the same request is not refused for the slot.\<close>

theorem slot_unavailable_iff_witness:
  "fst (postBooking aDb anOwner
          (aBody\<lparr>rq_startDate := Some 1005400000, rq_endDate := Some 1010000000\<rparr>) atEpoch)
     = Inl SlotUnavailable
   \<and> fst (postBooking (aDb\<lparr>bookings := [aBooking\<lparr>status := Cancelled\<rparr>]\<rparr>) anOwner
          (aBody\<lparr>rq_startDate := Some 1005400000, rq_endDate := Some 1010000000\<rparr>) atEpoch)
     \<noteq> Inl SlotUnavailable"
proof -
  let ?body = "aBody\<lparr>rq_startDate := Some 1005400000, rq_endDate := Some 1010000000\<rparr>"
  have c: "conflictCheckInput aDb anOwner ?body atEpoch = Some (2, 1005400000, 1010000000)"
    by (simp add: conflictCheckInput_def bookingSchema_def demo)
  have c': "conflictCheckInput (aDb\<lparr>bookings := [aBooking\<lparr>status := Cancelled\<rparr>]\<rparr>) anOwner ?body atEpoch
              = Some (2, 1005400000, 1010000000)"
    by (simp add: conflictCheckInput_def bookingSchema_def demo)
  have x: "\<exists>x \<in> set (bookings aDb). sitter x = 2 \<and> status x \<in> {Pending, Confirmed, InProgress}
             \<and> startDate x \<le> 1010000000 \<and> endDate x \<ge> 1005400000"
    by (simp add: demo)
  have x': "\<not> (\<exists>x \<in> set (bookings (aDb\<lparr>bookings := [aBooking\<lparr>status := Cancelled\<rparr>]\<rparr>)).
               sitter x = 2 \<and> status x \<in> {Pending, Confirmed, InProgress}
             \<and> startDate x \<le> 1010000000 \<and> endDate x \<ge> 1005400000)"
    by (simp add: demo)
  from slot_unavailable_iff[of aDb anOwner ?body atEpoch] c x
  have 1: "fst (postBooking aDb anOwner ?body atEpoch) = Inl SlotUnavailable" by blast
  from slot_unavailable_iff[of "aDb\<lparr>bookings := [aBooking\<lparr>status := Cancelled\<rparr>]\<rparr>" anOwner ?body atEpoch]
    c' x'
  have 2: "fst (postBooking (aDb\<lparr>bookings := [aBooking\<lparr>status := Cancelled\<rparr>]\<rparr>) anOwner ?body atEpoch)
             \<noteq> Inl SlotUnavailable" by auto
  from 1 2 show ?thesis by simp
qed

section \<open>Reading a pet\<close>

lemma findPet_Some:
  "findPet d pid caller = Some p \<Longrightarrow>
     p \<in> set (pets d) \<and> p_id p = pid \<and> p_owner p = u_id caller \<and> p_isActive p"
  by (auto simp: findPet_def find_Some_iff)

lemma findPet_None:
  "findPet d pid caller = None \<longleftrightarrow>
     \<not> (\<exists>p \<in> set (pets d). p_id p = pid \<and> p_owner p = u_id caller \<and> p_isActive p)"
  by (auto simp: findPet_def find_None_iff)

text \<open>
  C7. For every pet id and every caller with the role owner, \<^verbatim>\<open>GET /api/pets/:id\<close>
  returns a pet only if some stored pet has that id, is active and is the caller's, and
  then returns such a pet; in every other case, also when a pet with that id belongs to
  another owner, it fails with \<open>NoPetFound\<close>, whose status is 404. It never fails with an
  error whose status is 403. The database is unchanged either way.
\<close>

theorem getPet_not_found:
  assumes "u_role caller = Owner"
  shows "(if \<exists>p \<in> set (pets d). p_id p = pid \<and> p_owner p = u_id caller \<and> p_isActive p
          then \<exists>p \<in> set (pets d). p_id p = pid \<and> p_owner p = u_id caller \<and> p_isActive p
                  \<and> routeGetPet d caller pid = (Inr p, d)
          else routeGetPet d caller pid = (Inl NoPetFound, d))
       \<and> statusCode NoPetFound = 404
       \<and> (\<forall>e. statusCode e = 403 \<longrightarrow> fst (routeGetPet d caller pid) \<noteq> Inl e)"
proof -
  from assms have r: "routeGetPet d caller pid = getPet d caller pid"
    by (simp add: routeGetPet_def restrictTo_def)
  show ?thesis
  proof (cases "findPet d pid caller")
    case None
    then have "routeGetPet d caller pid = (Inl NoPetFound, d)" using r by (simp add: getPet_def)
    with None show ?thesis by (auto simp: findPet_None)
  next
    case (Some p)
    then have "routeGetPet d caller pid = (Inr p, d)" using r by (simp add: getPet_def)
    with findPet_Some[OF Some] show ?thesis by auto
  qed
qed

text \<open>The second owner asks for the first owner's dog, then the first owner does.\<close>

theorem getPet_not_found_witness:
  "u_role otherOwner = Owner
   \<and> routeGetPet aDb otherOwner 10 = (Inl NoPetFound, aDb)
   \<and> aPet \<in> set (pets aDb) \<and> p_id aPet = 10
   \<and> u_role anOwner = Owner
   \<and> routeGetPet aDb anOwner 10 = (Inr aPet, aDb)"
proof -
  have h': "u_role anOwner = Owner" by (simp add: anOwner_def)
  have y: "\<exists>p \<in> set (pets aDb). p_id p = 10 \<and> p_owner p = u_id anOwner \<and> p_isActive p"
    by (simp add: demo)
  from getPet_not_found[OF h', of aDb 10] y
  have "\<exists>p \<in> set (pets aDb). routeGetPet aDb anOwner 10 = (Inr p, aDb)" by auto
  then have own: "routeGetPet aDb anOwner 10 = (Inr aPet, aDb)" by (simp add: aDb_def)
  have h: "u_role otherOwner = Owner" by (simp add: otherOwner_def)
  have n: "\<not> (\<exists>p \<in> set (pets aDb). p_id p = 10 \<and> p_owner p = u_id otherOwner \<and> p_isActive p)"
    by (simp add: demo)
  from getPet_not_found[OF h, of aDb 10] n
  have "routeGetPet aDb otherOwner 10 = (Inl NoPetFound, aDb)" by (simp only: if_False)
  with h h' own show ?thesis by (simp add: demo)
qed

section \<open>Deleting a photo\<close>

lemma nth_splice1:
  "i < length xs \<Longrightarrow> length (splice1 i xs) = length xs - 1
     \<and> (\<forall>j < i. splice1 i xs ! j = xs ! j)
     \<and> (\<forall>j. i \<le> j \<and> j < length xs - 1 \<longrightarrow> splice1 i xs ! j = xs ! Suc j)"
  by (auto simp: splice1_def nth_append min_def)

text \<open>
  C8. For every pet the calling owner can reach and every index argument of
  \<^verbatim>\<open>DELETE /api/pets/:id/photos/:photoIndex\<close>, read by \<^verbatim>\<open>parseInt\<close>: when the index is
  at least 0 and less than the number of photos, the call succeeds and stores the pet
  with exactly the photo at that position removed (one photo fewer, the photos before the
  position unchanged, the photos after it moved down by one, every other field the same):
  the database afterwards is the old one with that pet in the place of the old pet, and
  nothing else changed. For every other index the call fails and the database, hence the
  photo list, is unchanged: with \<open>InvalidPhotoIndex\<close> when the index is a number out of
  range, with a thrown error when it is not a number.
\<close>

theorem deletePhoto_index:
  assumes "u_role caller = Owner" and "findPet d pid caller = Some p"
  shows "(\<forall>i. parseInt param = Some i \<and> 0 \<le> i \<and> i < int (length (p_photos p)) \<longrightarrow>
            (\<exists>p'. routeDeletePhoto d caller pid param =
                     (Inr p', d\<lparr>pets := map (\<lambda>x. if p_id x = pid then p' else x) (pets d)\<rparr>)
                 \<and> p' = p\<lparr>p_photos := p_photos p'\<rparr>
                 \<and> length (p_photos p') = length (p_photos p) - 1
                 \<and> (\<forall>j < nat i. p_photos p' ! j = p_photos p ! j)
                 \<and> (\<forall>j. nat i \<le> j \<and> j < length (p_photos p) - 1 \<longrightarrow>
                        p_photos p' ! j = p_photos p ! Suc j)))
       \<and> (\<forall>i. parseInt param = Some i \<and> \<not> (0 \<le> i \<and> i < int (length (p_photos p))) \<longrightarrow>
            routeDeletePhoto d caller pid param = (Inl InvalidPhotoIndex, d))
       \<and> (parseInt param = None \<longrightarrow>
            (\<exists>m. routeDeletePhoto d caller pid param = (Inl (ThrownError m), d)))"
proof -
  from assms(1) have r: "routeDeletePhoto d caller pid param = deletePhoto d caller pid param"
    by (simp add: routeDeletePhoto_def restrictTo_def)
  from assms(2) have id: "p_id p = pid" by (auto simp: findPet_def find_Some_iff)
  show ?thesis
  proof (intro conjI allI impI)
    fix i
    assume a: "parseInt param = Some i \<and> 0 \<le> i \<and> i < int (length (p_photos p))"
    let ?p' = "p\<lparr>p_photos := splice1 (nat i) (p_photos p)\<rparr>"
    from a have lt: "nat i < length (p_photos p)" by linarith
    from id have sv: "savePet d ?p' = d\<lparr>pets := map (\<lambda>x. if p_id x = pid then ?p' else x) (pets d)\<rparr>"
      by (simp add: savePet_def)
    from a assms(2) have "routeDeletePhoto d caller pid param = (Inr ?p', savePet d ?p')"
      unfolding r by (simp add: deletePhoto_def Let_def)
    with sv have "routeDeletePhoto d caller pid param =
        (Inr ?p', d\<lparr>pets := map (\<lambda>x. if p_id x = pid then ?p' else x) (pets d)\<rparr>)"
      by simp
    with nth_splice1[OF lt]
    show "\<exists>p'. routeDeletePhoto d caller pid param =
                     (Inr p', d\<lparr>pets := map (\<lambda>x. if p_id x = pid then p' else x) (pets d)\<rparr>)
                 \<and> p' = p\<lparr>p_photos := p_photos p'\<rparr>
                 \<and> length (p_photos p') = length (p_photos p) - 1
                 \<and> (\<forall>j < nat i. p_photos p' ! j = p_photos p ! j)
                 \<and> (\<forall>j. nat i \<le> j \<and> j < length (p_photos p) - 1 \<longrightarrow>
                        p_photos p' ! j = p_photos p ! Suc j)"
      by (intro exI[of _ ?p']) simp
  next
    fix i
    assume "parseInt param = Some i \<and> \<not> (0 \<le> i \<and> i < int (length (p_photos p)))"
    with assms(2) show "routeDeletePhoto d caller pid param = (Inl InvalidPhotoIndex, d)"
      unfolding r by (auto simp: deletePhoto_def)
  next
    assume "parseInt param = None"
    with assms(2) show "\<exists>m. routeDeletePhoto d caller pid param = (Inl (ThrownError m), d)"
      unfolding r by (simp add: deletePhoto_def)
  qed
qed

text \<open>Index \<^verbatim>\<open>1\<close> of the three photos of the dog, the same index behind a no-break space
  (U+00A0), then the indices \<^verbatim>\<open>3\<close> and \<^verbatim>\<open>x\<close>.\<close>

lemma parseInt_examples:
  "parseInt [49] = Some 1" "parseInt [160, 49] = Some 1" "parseInt [51] = Some 3"
  "parseInt [120] = None"
  by (simp_all add: parseInt_def parseUnsigned_def isSpace_def isRadixDigit_def digitValue_def
      digitsValue_def)

theorem deletePhoto_index_witness:
  "u_role anOwner = Owner \<and> findPet aDb 10 anOwner = Some aPet
   \<and> routeDeletePhoto aDb anOwner 10 [49]
       = (Inr (aPet\<lparr>p_photos := [''a.jpg'', ''c.jpg'']\<rparr>),
          aDb\<lparr>pets := [aPet\<lparr>p_photos := [''a.jpg'', ''c.jpg'']\<rparr>]\<rparr>)
   \<and> routeDeletePhoto aDb anOwner 10 [160, 49]
       = (Inr (aPet\<lparr>p_photos := [''a.jpg'', ''c.jpg'']\<rparr>),
          aDb\<lparr>pets := [aPet\<lparr>p_photos := [''a.jpg'', ''c.jpg'']\<rparr>]\<rparr>)
   \<and> routeDeletePhoto aDb anOwner 10 [51] = (Inl InvalidPhotoIndex, aDb)
   \<and> (\<exists>m. routeDeletePhoto aDb anOwner 10 [120] = (Inl (ThrownError m), aDb))"
proof -
  have h: "u_role anOwner = Owner" "findPet aDb 10 anOwner = Some aPet"
    by (simp_all add: findPet_def demo)
  note t = deletePhoto_index[OF h]
  have ph: "p_photos aPet = [''a.jpg'', ''b.jpg'', ''c.jpg'']" by (simp add: aPet_def)
  have one: "routeDeletePhoto aDb anOwner 10 param
       = (Inr (aPet\<lparr>p_photos := [''a.jpg'', ''c.jpg'']\<rparr>),
          aDb\<lparr>pets := [aPet\<lparr>p_photos := [''a.jpg'', ''c.jpg'']\<rparr>]\<rparr>)"
    if "parseInt param = Some 1" for param
  proof -
    have rng: "parseInt param = Some 1 \<and> 0 \<le> (1::int) \<and> 1 < int (length (p_photos aPet))"
      using that by (simp add: ph)
    from t[of param, THEN conjunct1, rule_format, OF rng]
    obtain p' where 1: "routeDeletePhoto aDb anOwner 10 param =
          (Inr p', aDb\<lparr>pets := map (\<lambda>x. if p_id x = 10 then p' else x) (pets aDb)\<rparr>)"
      and e: "p' = aPet\<lparr>p_photos := p_photos p'\<rparr>"
      and l: "length (p_photos p') = length (p_photos aPet) - 1"
      and a: "\<forall>j < nat 1. p_photos p' ! j = p_photos aPet ! j"
      and b: "\<forall>j. nat 1 \<le> j \<and> j < length (p_photos aPet) - 1 \<longrightarrow>
                  p_photos p' ! j = p_photos aPet ! Suc j"
      by blast
    from l have l2: "length (p_photos p') = Suc (Suc 0)" by (simp add: ph)
    from a have a0: "p_photos p' ! 0 = ''a.jpg''" by (simp add: ph)
    from b[rule_format, of "Suc 0"] have b1: "p_photos p' ! Suc 0 = ''c.jpg''"
      by (simp add: ph)
    from l2 obtain x y where xy: "p_photos p' = [x, y]"
      by (cases "p_photos p'"; cases "tl (p_photos p')") auto
    with a0 b1 have 2: "p_photos p' = [''a.jpg'', ''c.jpg'']" by simp
    with e have p': "p' = aPet\<lparr>p_photos := [''a.jpg'', ''c.jpg'']\<rparr>" by simp
    have "map (\<lambda>x. if p_id x = 10 then p' else x) (pets aDb) = [p']" by (simp add: demo)
    with 1 p' show ?thesis by simp
  qed
  from t[of "[51]"] parseInt_examples(3) ph
  have 3: "routeDeletePhoto aDb anOwner 10 [51] = (Inl InvalidPhotoIndex, aDb)" by simp
  from t[of "[120]"] parseInt_examples(4)
  have 4: "\<exists>m. routeDeletePhoto aDb anOwner 10 [120] = (Inl (ThrownError m), aDb)" by simp
  from h one[OF parseInt_examples(1)] one[OF parseInt_examples(2)] 3 4 show ?thesis by blast
qed

section \<open>Failed logins\<close>

text \<open>
  C9. Take any two login requests that fail, each because its email is unknown, or its
  password does not match, or its account is deactivated. Their responses are equal: both
  are status 401 with the body \<^verbatim>\<open>{status: 'fail', message: 'Invalid email or password'}\<close>,
  and the database is unchanged.
\<close>

theorem login_failures_identical:
  assumes "find (\<lambda>u. u_email u = e1) (users d1) = None
           \<or> (\<exists>u. find (\<lambda>u. u_email u = e1) (users d1) = Some u
                  \<and> (\<not> cmp p1 (u_password u) \<or> \<not> u_isActive u))"
      and "find (\<lambda>u. u_email u = e2) (users d2) = None
           \<or> (\<exists>u. find (\<lambda>u. u_email u = e2) (users d2) = Some u
                  \<and> (\<not> cmp p2 (u_password u) \<or> \<not> u_isActive u))"
  shows "fst (login cmp sign d1 e1 p1 clk1) = fst (login cmp sign d2 e2 p2 clk2)
       \<and> fst (login cmp sign d1 e1 p1 clk1) =
           \<lparr> code = 401, r_status = ''fail'', r_message = Some ''Invalid email or password'',
             r_token = None, r_user = None \<rparr>
       \<and> snd (login cmp sign d1 e1 p1 clk1) = d1"
proof -
  have f: "\<exists>err. findByCredentials cmp (users d) e p = Inl err"
    if "find (\<lambda>u. u_email u = e) (users d) = None
           \<or> (\<exists>u. find (\<lambda>u. u_email u = e) (users d) = Some u
                  \<and> (\<not> cmp p (u_password u) \<or> \<not> u_isActive u))" for d :: db and e p
    using that by (auto simp: findByCredentials_def)
  from f[OF assms(1)] f[OF assms(2)] show ?thesis
    by (auto simp: login_def)
qed

text \<open>An unknown email, a wrong password and a deactivated account, against a login
  that succeeds.\<close>

theorem login_failures_identical_witness:
  "fst (login samePassword signId aDb ''nobody@example.com'' ''a'' atEpoch)
     = fst (login samePassword signId aDb ''fay@example.com'' ''f'' atEpoch)
   \<and> fst (login samePassword signId aDb ''ann@example.com'' ''wrong'' atEpoch)
     = fst (login samePassword signId aDb ''fay@example.com'' ''f'' atEpoch)
   \<and> code (fst (login samePassword signId aDb ''fay@example.com'' ''f'' atEpoch)) = 401
   \<and> code (fst (login samePassword signId aDb ''ann@example.com'' ''a'' atEpoch)) = 200"
proof -
  have u: "find (\<lambda>u. u_email u = ''nobody@example.com'') (users aDb) = None"
    by (simp add: demo)
  have w: "find (\<lambda>u. u_email u = ''ann@example.com'') (users aDb) = Some anOwner"
        "\<not> samePassword ''wrong'' (u_password anOwner)"
    by (simp_all add: demo samePassword_def)
  have i: "find (\<lambda>u. u_email u = ''fay@example.com'') (users aDb) = Some formerOwner"
        "\<not> u_isActive formerOwner"
    by (simp_all add: demo)
  from login_failures_identical[where ?e1.0 = "''nobody@example.com''" and ?d1.0 = aDb
         and ?e2.0 = "''fay@example.com''" and ?d2.0 = aDb and cmp = samePassword
         and ?p1.0 = "''a''" and ?p2.0 = "''f''" and sign = signId
         and ?clk1.0 = atEpoch and ?clk2.0 = atEpoch] u i
  have 1: "fst (login samePassword signId aDb ''nobody@example.com'' ''a'' atEpoch)
             = fst (login samePassword signId aDb ''fay@example.com'' ''f'' atEpoch)" by blast
  from login_failures_identical[where ?e1.0 = "''ann@example.com''" and ?d1.0 = aDb
         and ?e2.0 = "''fay@example.com''" and ?d2.0 = aDb and cmp = samePassword
         and ?p1.0 = "''wrong''" and ?p2.0 = "''f''" and sign = signId
         and ?clk1.0 = atEpoch and ?clk2.0 = atEpoch] w i
  have 2: "fst (login samePassword signId aDb ''ann@example.com'' ''wrong'' atEpoch)
             = fst (login samePassword signId aDb ''fay@example.com'' ''f'' atEpoch)" by blast
  from login_failures_identical[where ?e1.0 = "''fay@example.com''" and ?d1.0 = aDb
         and ?e2.0 = "''fay@example.com''" and ?d2.0 = aDb and cmp = samePassword
         and ?p1.0 = "''f''" and ?p2.0 = "''f''" and sign = signId
         and ?clk1.0 = atEpoch and ?clk2.0 = atEpoch] i
  have 3: "code (fst (login samePassword signId aDb ''fay@example.com'' ''f'' atEpoch)) = 401"
    by auto
  have 4: "code (fst (login samePassword signId aDb ''ann@example.com'' ''a'' atEpoch)) = 200"
    by (simp add: login_def findByCredentials_def samePassword_def demo Let_def)
  from 1 2 3 4 show ?thesis by simp
qed

section \<open>The counter of a service\<close>

lemma services_saveBooking: "services (saveBooking d b) = services d"
  by (simp add: saveBooking_def)

lemma services_createBooking:
  "services (snd (createBooking d caller sid pid s e body now)) = services d"
  by (auto simp: createBooking_def Let_def split: option.splits)

text \<open>
  C10. \<^verbatim>\<open>POST /api/bookings\<close> leaves every service as it was, and with it the counter
  \<^verbatim>\<open>totalBookings\<close>, whatever the outcome and whatever the initial status of the booking;
  so do check-in and check-out. The status update changes the services only when it
  succeeds and the requested status is \<^verbatim>\<open>confirmed\<close>, and then it adds 1 to the counter
  of the booking's service and changes nothing else.
\<close>

theorem totalBookings_frame:
  "services (snd (postBooking d caller body clk)) = services d
   \<and> services (snd (postCheckInOut d caller bid isCheckIn cnotes cphotos clk)) = services d
   \<and> services (snd (updateBookingStatus d caller bid req rnotes clk)) =
       (case fst (updateBookingStatus d caller bid req rnotes clk) of
          Inl e \<Rightarrow> services d
        | Inr b' \<Rightarrow>
            if req = ''confirmed''
            then map (\<lambda>s. if s_id s = service b' then s\<lparr>s_totalBookings := s_totalBookings s + 1\<rparr>
                           else s) (services d)
            else services d)"
proof (intro conjI)
  show "services (snd (postBooking d caller body clk)) = services d"
    by (auto simp: postBooking_def services_createBooking split: option.splits)
  show "services (snd (postCheckInOut d caller bid isCheckIn cnotes cphotos clk)) = services d"
    by (auto simp: postCheckInOut_def checkInOut_def Let_def services_saveBooking
        split: option.splits)
  show "services (snd (updateBookingStatus d caller bid req rnotes clk)) =
       (case fst (updateBookingStatus d caller bid req rnotes clk) of
          Inl e \<Rightarrow> services d
        | Inr b' \<Rightarrow>
            if req = ''confirmed''
            then map (\<lambda>s. if s_id s = service b' then s\<lparr>s_totalBookings := s_totalBookings s + 1\<rparr>
                           else s) (services d)
            else services d)"
  proof (cases "roleGate caller req")
    case (Some e) then show ?thesis by (simp add: updateBookingStatus_def)
  next
    case None
    show ?thesis
    proof (cases "findBookingFor d caller bid")
      case None with \<open>roleGate caller req = None\<close> show ?thesis
        by (simp add: updateBookingStatus_def)
    next
      case (Some b)
      show ?thesis
      proof (cases "find (\<lambda>t. statusName t = req) (validTransitions (status b))")
        case None with Some \<open>roleGate caller req = None\<close> show ?thesis
          by (simp add: updateBookingStatus_def)
      next
        case (Some t)
        then have tn: "statusName t = req" by (auto simp: find_Some_iff)
        have c: "t = Confirmed \<longleftrightarrow> req = ''confirmed''" using tn by (cases t) auto
        from Some \<open>findBookingFor d caller bid = Some b\<close> \<open>roleGate caller req = None\<close> c
        show ?thesis
          by (auto simp: updateBookingStatus_def Let_def services_saveBooking incTotalBookings_def
              split: option.splits role.splits)
      qed
    qed
  qed
qed

text \<open>On a service with \<^verbatim>\<open>instantBooking\<close> the new booking is confirmed at once and the
  counter stays at 0.\<close>

theorem totalBookings_frame_witness:
  "\<exists>b d'. postBooking (aDb\<lparr>services := [aService\<lparr>s_instantBooking := True\<rparr>]\<rparr>)
             anOwner aBody atEpoch = (Inr b, d')
      \<and> status b = Confirmed \<and> map s_totalBookings (services d') = [0]"
proof -
  let ?d = "aDb\<lparr>services := [aService\<lparr>s_instantBooking := True\<rparr>]\<rparr>"
  obtain b d' where r: "postBooking ?d anOwner aBody atEpoch = (Inr b, d')"
    and b: "status b = Confirmed"
    by (simp add: evalBooking demo)
  from totalBookings_frame[of ?d anOwner aBody atEpoch] r
  have "services d' = services ?d" by simp
  then have "map s_totalBookings (services d') = [0]" by (simp add: demo)
  with r b show ?thesis by (intro exI[of _ b] exI[of _ d']) simp
qed

end
